theory Spec2Isabelle
  imports Main "HOL-Library.AList" "HOL-Library.Sublist"
begin

section \<open>Domain expiry: values, records and collaborators\<close>

text \<open>
  The development embeds \<^verbatim>\<open>server/model/domain_expiry.js\<close> and the monitor type
  \<^verbatim>\<open>DomainExpiryMonitorType\<close>. JavaScript values that the code tells apart are kept
  apart: \<^verbatim>\<open>undefined\<close>, \<^verbatim>\<open>null\<close>, a date-time text and a \<^verbatim>\<open>Date\<close> object.

  A \<^verbatim>\<open>Date\<close> holds a number of milliseconds since the epoch, or NaN (an invalid date).
\<close>

datatype jsdate = Invalid | Valid int

text \<open>
  A date-time text (what \<^verbatim>\<open>R.isoDateTimeMillis\<close> writes and the database column gives back)
  is represented by the instant \<^verbatim>\<open>dayjs.utc\<close> reads from it; \<open>JText Invalid\<close> stands for a
  text that is no date, such as \<^verbatim>\<open>Invalid Date\<close>. Such a text is a non-empty string: it is
  truthy and has no \<^verbatim>\<open>getTime\<close> method.
\<close>

datatype jsval = JUndefined | JNull | JText jsdate | JDate jsdate

fun truthy :: "jsval \<Rightarrow> bool" where
  "truthy JUndefined = False"
| "truthy JNull = False"
| "truthy (JText d) = True"
| "truthy (JDate d) = True"

text \<open>A JavaScript object with string keys, in insertion order.\<close>

type_synonym jsobject = "(string \<times> string) list"

text \<open>The row of table \<^verbatim>\<open>domain_expiry\<close>, as the bean holds it.\<close>

record bean =
  domain :: string
  expiry :: jsval
  lastCheck :: jsval
  lastExpiryNotificationSent :: "int option"
  whois_info :: "jsobject option"

text \<open>The table: at most one bean for a domain name.\<close>

type_synonym db = "string \<rightharpoonup> bean"

record whois_result =
  expiryDate :: jsval
  whoisInfo :: "jsobject option"

record provider =
  name :: string
  config :: string

text \<open>What \<^verbatim>\<open>tldts\<close>' \<^verbatim>\<open>parse\<close> returns; every component may be \<^verbatim>\<open>null\<close>.\<close>

record tld_result =
  tld_hostname :: "string option"
  tld_isIp :: "bool option"
  tld_publicSuffix :: "string option"
  tld_domain :: "string option"

datatype lookup_result = LookupError | LookupData string

text \<open>
  The collaborators outside this repository are parameters: the clock, the process's zone,
  the URL parser, the WHOIS client and parser, the \<^verbatim>\<open>Date\<close> parser, the trimming
  of a string, \<^verbatim>\<open>tldts\<close>, the table
  \<^verbatim>\<open>TYPES_WITH_DOMAIN_EXPIRY_SUPPORT_VIA_FIELD\<close> and the notification dispatch.
  \<^item> \<open>now\<close>: the instant \<^verbatim>\<open>dayjs.utc()\<close> reads during one call;
  \<^item> \<open>localOffset t\<close>: the offset of local time at instant \<open>t\<close>, in milliseconds;
  \<^item> \<open>urlHost s\<close>: \<^verbatim>\<open>new URL(s).host\<close>, \<open>None\<close> when the constructor throws;
  \<^item> \<open>whoisLookup d\<close>: what \<^verbatim>\<open>whois.lookup\<close> passes to its callback;
  \<^item> \<open>parseWhoIsData\<close>: the attribute/value entries \<^verbatim>\<open>parse-whois\<close> returns, in order;
  \<^item> \<open>newDate s\<close>: \<^verbatim>\<open>new Date(s)\<close>;
  \<^item> \<open>trim s\<close>: \<^verbatim>\<open>String.prototype.trim\<close>, which removes the white space and the line
    terminators of Unicode at both ends;
  \<^item> \<open>sendOk t p\<close>: whether the send to provider \<open>p\<close>, attempted for deadline \<open>t\<close>,
    returns without throwing (parsing the provider's configuration included);
  \<^item> \<open>toISOString t\<close>: \<^verbatim>\<open>Date.prototype.toISOString\<close> at a valid instant.
\<close>

record env =
  now :: int
  localOffset :: "int \<Rightarrow> int"
  urlHost :: "string \<Rightarrow> string option"
  whoisLookup :: "string \<Rightarrow> lookup_result"
  parseWhoIsData :: "string \<Rightarrow> (string \<times> string) list"
  newDate :: "string \<Rightarrow> jsdate"
  trim :: "string \<Rightarrow> string"
  parseTld :: "string \<Rightarrow> tld_result"
  supportViaField :: "string \<rightharpoonup> string"
  sendOk :: "int \<Rightarrow> provider \<Rightarrow> bool"
  toISOString :: "int \<Rightarrow> string"

datatype error =
    TranslatableError string "(string \<times> string option) list"
  | TypeError
  | Error string

section \<open>Dates\<close>

text \<open>\<^verbatim>\<open>dayjs.utc(v)\<close>: no argument reads the clock, \<^verbatim>\<open>null\<close> is an invalid date.\<close>

fun dayjs_utc :: "env \<Rightarrow> jsval \<Rightarrow> jsdate" where
  "dayjs_utc e JUndefined = Valid (now e)"
| "dayjs_utc e JNull = Invalid"
| "dayjs_utc e (JText d) = d"
| "dayjs_utc e (JDate d) = d"

definition MILLISECONDS_A_DAY :: int where
  "MILLISECONDS_A_DAY = 86400000"

text \<open>Division of \<open>a\<close> by a positive \<open>b\<close>, rounded towards zero (dayjs' \<^verbatim>\<open>absFloor\<close>).\<close>

definition absFloorDiv :: "int \<Rightarrow> int \<Rightarrow> int" where
  "absFloorDiv a b = (if a < 0 then - ((- a) div b) else a div b)"

text \<open>\<^verbatim>\<open>a.diff(b, "day")\<close>; \<open>None\<close> is NaN, which every comparison rejects.\<close>

fun diff_day :: "jsdate \<Rightarrow> jsdate \<Rightarrow> int option" where
  "diff_day (Valid a) (Valid b) = Some (absFloorDiv (a - b) MILLISECONDS_A_DAY)"
| "diff_day _ _ = None"

fun isAfter :: "jsdate \<Rightarrow> jsdate \<Rightarrow> bool" where
  "isAfter (Valid a) (Valid b) = (b < a)"
| "isAfter _ _ = False"

text \<open>
  \<^verbatim>\<open>R.isoDateTimeMillis(v)\<close> for a value that is no dayjs object: the text of \<^verbatim>\<open>dayjs(v)\<close>
  in local time. Read back by \<^verbatim>\<open>dayjs.utc\<close>, the text of a valid instant is that instant
  moved by the local offset; the text of an invalid date is no date.
\<close>

fun localText :: "env \<Rightarrow> jsdate \<Rightarrow> jsdate" where
  "localText e Invalid = Invalid"
| "localText e (Valid t) = Valid (t + localOffset e t)"

fun isoDateTimeMillis :: "env \<Rightarrow> jsval \<Rightarrow> jsval" where
  "isoDateTimeMillis e (JText d) = JText d"
| "isoDateTimeMillis e v = JText (localText e (dayjs_utc e v))"

text \<open>\<^verbatim>\<open>R.isoDateTimeMillis(dayjs.utc())\<close>: a dayjs object in UTC is written as it is.\<close>

definition isoDateTimeMillisNow :: "env \<Rightarrow> jsval" where
  "isoDateTimeMillisNow e = JText (Valid (now e))"

section \<open>The WHOIS query and the extraction of the expiry date\<close>

definition WHOIS_EXPIRY_KEYS :: "string list" where
  "WHOIS_EXPIRY_KEYS =
     [''Registrar Registration Expiration Date'',
      ''Registry Expiry Date'',
      ''Expiration Time'',
      ''paid-till'']"

text \<open>
  \<^verbatim>\<open>normalizeDomain\<close>: the host of the input read as a URL, and of \<^verbatim>\<open>http://\<close> followed
  by the input when that throws; the second constructor's exception is not caught.
\<close>

definition normalizeDomain :: "env \<Rightarrow> string \<Rightarrow> error + string" where
  "normalizeDomain e input =
     (if input = [] then Inr []
      else (case urlHost e input of
              Some h \<Rightarrow> Inr h
            | None \<Rightarrow> (case urlHost e (''http://'' @ input) of
                          Some h \<Rightarrow> Inr h
                        | None \<Rightarrow> Inl TypeError)))"

text \<open>
  \<^verbatim>\<open>whoisInfo[attribute] = value\<close> on an object born as \<^verbatim>\<open>{}\<close>: the key keeps its place
  when it exists and is appended otherwise. The key \<^verbatim>\<open>__proto__\<close> reaches the setter of
  \<^verbatim>\<open>Object.prototype\<close>, which ignores a string: no property is stored.
\<close>

definition setProperty :: "jsobject \<Rightarrow> string \<Rightarrow> string \<Rightarrow> jsobject" where
  "setProperty obj k v = (if k = ''__proto__'' then obj else AList.update k v obj)"

text \<open>
  The loop over the parsed entries (lines 57 to 63). The state is \<^verbatim>\<open>paidTillDate\<close>
  (\<open>None\<close> while it is \<^verbatim>\<open>undefined\<close>) and \<^verbatim>\<open>whoisInfo\<close>.
\<close>

fun whoisLoop :: "env \<Rightarrow> (string \<times> string) list \<Rightarrow> jsdate option \<times> jsobject \<Rightarrow> jsdate option \<times> jsobject" where
  "whoisLoop e [] st = st"
| "whoisLoop e ((attribute, v) # params) (paidTillDate, info) =
     whoisLoop e params
       ((if trim e attribute \<in> set WHOIS_EXPIRY_KEYS then Some (newDate e v) else paidTillDate),
        setProperty info attribute v)"

text \<open>The callback of \<^verbatim>\<open>whois.lookup\<close> on data (lines 53 to 70), after the parser.\<close>

definition whoisCallback :: "env \<Rightarrow> (string \<times> string) list \<Rightarrow> whois_result" where
  "whoisCallback e parsedData =
     (case whoisLoop e parsedData (None, []) of
        (Some (Valid t), info) \<Rightarrow> \<lparr>expiryDate = JDate (Valid t), whoisInfo = Some info\<rparr>
      | (_, info) \<Rightarrow> \<lparr>expiryDate = JNull, whoisInfo = Some info\<rparr>)"

text \<open>
  \<^verbatim>\<open>getWhoisDomainExpiryDate\<close>. The second component lists the names sent to the WHOIS
  client: one when the name was normalised, none when normalising threw.
\<close>

definition getWhoisDomainExpiryDate :: "env \<Rightarrow> string \<Rightarrow> error + (whois_result \<times> string list)" where
  "getWhoisDomainExpiryDate e d =
     (case normalizeDomain e d of
        Inl err \<Rightarrow> Inl err
      | Inr normalizedDomain \<Rightarrow>
          Inr ((case whoisLookup e normalizedDomain of
                  LookupError \<Rightarrow> \<lparr>expiryDate = JNull, whoisInfo = None\<rparr>
                | LookupData raw \<Rightarrow> whoisCallback e (parseWhoIsData e raw)),
               [normalizedDomain]))"

section \<open>Support of a monitor\<close>

text \<open>
  A monitor: its type and its fields; a field gives \<open>None\<close> when its value is no string.
\<close>

record monitor =
  type :: string
  field :: "string \<Rightarrow> string option"

record support_info =
  si_domain :: "string option"
  si_tld :: string

text \<open>\<^verbatim>\<open>s.split(".")\<close>: the parts between the dots, never an empty array.\<close>

fun splitDot :: "string \<Rightarrow> string list" where
  "splitDot [] = [[]]"
| "splitDot (c # cs) =
     (if c = CHR ''.'' then [] # splitDot cs
      else (c # hd (splitDot cs)) # tl (splitDot cs))"

text \<open>
  \<^verbatim>\<open>DomainExpiry.checkSupport\<close>. Reading \<^verbatim>\<open>length\<close> of a public suffix that is
  \<^verbatim>\<open>null\<close> throws a \<^verbatim>\<open>TypeError\<close>.
\<close>

definition checkSupport :: "env \<Rightarrow> monitor \<Rightarrow> error + support_info" where
  "checkSupport e m =
     (case supportViaField e (type m) of
        None \<Rightarrow> Inl (TranslatableError ''domain_expiry_unsupported_monitor_type'' [])
      | Some targetField \<Rightarrow>
          (case field m targetField of
             None \<Rightarrow> Inl (TranslatableError ''domain_expiry_unsupported_missing_target'' [])
           | Some target \<Rightarrow>
               if length target = 0
               then Inl (TranslatableError ''domain_expiry_unsupported_missing_target'' [])
               else
                 (let tld = parseTld e target in
                  if tld_isIp tld = Some True
                  then Inl (TranslatableError ''domain_expiry_unsupported_is_ip''
                              [(''hostname'', tld_hostname tld)])
                  else
                    (case tld_publicSuffix tld of
                       None \<Rightarrow> Inl TypeError
                     | Some publicSuffix \<Rightarrow>
                         if length publicSuffix < 2
                         then Inl (TranslatableError ''domain_expiry_public_suffix_too_short''
                                     [(''publicSuffix'', Some publicSuffix)])
                         else Inr \<lparr>si_domain = tld_domain tld,
                                   si_tld = last (splitDot publicSuffix)\<rparr>))))"

section \<open>The record store\<close>

text \<open>\<^verbatim>\<open>R.findOne\<close> on the domain column; \<^verbatim>\<open>null\<close> matches no row.\<close>

definition findByName :: "db \<Rightarrow> string option \<Rightarrow> bean option" where
  "findByName tbl domainName = (case domainName of None \<Rightarrow> None | Some d \<Rightarrow> tbl d)"

text \<open>\<^verbatim>\<open>R.dispense\<close> and the domain: every other property is \<^verbatim>\<open>undefined\<close>.\<close>

definition createByName :: "string \<Rightarrow> bean" where
  "createByName d =
     \<lparr>domain = d, expiry = JUndefined, lastCheck = JUndefined,
      lastExpiryNotificationSent = None, whois_info = None\<rparr>"

definition findByDomainNameOrCreate :: "db \<Rightarrow> string option \<Rightarrow> bean option" where
  "findByDomainNameOrCreate tbl domainName =
     (case findByName tbl domainName of
        Some b \<Rightarrow> Some b
      | None \<Rightarrow>
          (case domainName of
             None \<Rightarrow> None
           | Some d \<Rightarrow> if d \<noteq> [] then Some (createByName d) else None))"

definition store :: "db \<Rightarrow> bean \<Rightarrow> db" where
  "store tbl b = tbl(domain b \<mapsto> b)"

text \<open>The getter \<^verbatim>\<open>daysRemaining\<close>; \<open>None\<close> is NaN.\<close>

definition daysRemaining :: "env \<Rightarrow> bean \<Rightarrow> int option" where
  "daysRemaining e b = diff_day (dayjs_utc e (expiry b)) (Valid (now e))"

text \<open>Comparisons of a number that may be NaN with a number.\<close>

fun js_less :: "int option \<Rightarrow> int \<Rightarrow> bool" where
  "js_less None k = False"
| "js_less (Some n) k = (n < k)"

fun js_greater :: "int option \<Rightarrow> int \<Rightarrow> bool" where
  "js_greater None k = False"
| "js_greater (Some n) k = (n > k)"

text \<open>The test of line 209: the bean was checked recently.\<close>

definition checkedRecently :: "env \<Rightarrow> bean \<Rightarrow> bool" where
  "checkedRecently e b =
     (truthy (lastCheck b) \<and> js_less (diff_day (dayjs_utc e (lastCheck b)) (Valid (now e))) 1)"

text \<open>
  \<^verbatim>\<open>DomainExpiry.checkExpiry\<close>. The result is the returned value, the table and the names
  sent to the WHOIS client. An exception of the query leaves before the bean is stored.
\<close>

definition checkExpiry :: "env \<Rightarrow> db \<Rightarrow> string option \<Rightarrow> error + (jsval \<times> db \<times> string list)" where
  "checkExpiry e tbl domainName =
     (case findByDomainNameOrCreate tbl domainName of
        None \<Rightarrow> Inr (JUndefined, tbl, [])
      | Some b \<Rightarrow>
          if checkedRecently e b then Inr (expiry b, tbl, [])
          else
            (case getWhoisDomainExpiryDate e (domain b) of
               Inl err \<Rightarrow> Inl err
             | Inr (result, queried) \<Rightarrow>
                 (let b1 = (if isAfter (dayjs_utc e (expiryDate result)) (dayjs_utc e (expiry b))
                            then b\<lparr>lastExpiryNotificationSent := None\<rparr> else b);
                      b2 = b1\<lparr>expiry := isoDateTimeMillis e (expiryDate result),
                               lastCheck := isoDateTimeMillisNow e,
                               whois_info := whoisInfo result\<rparr>
                  in Inr (if expiryDate result = JNull then JUndefined else expiryDate result,
                          store tbl b2, queried))))"

section \<open>The notification thresholds\<close>

text \<open>
  \<^verbatim>\<open>sendDomainNotificationByTargetDays\<close>: every provider is tried, a failure is logged
  and the loop goes on; the result is whether a send succeeded, with the sends attempted.
\<close>

fun sendToAll :: "env \<Rightarrow> int \<Rightarrow> provider list \<Rightarrow> bool \<Rightarrow> bool" where
  "sendToAll e targetDays [] sent = sent"
| "sendToAll e targetDays (notification # rest) sent =
     sendToAll e targetDays rest (if sendOk e targetDays notification then True else sent)"

definition sendDomainNotificationByTargetDays ::
  "env \<Rightarrow> int \<Rightarrow> provider list \<Rightarrow> bool \<times> (int \<times> provider) list" where
  "sendDomainNotificationByTargetDays e targetDays notificationList =
     (sendToAll e targetDays notificationList False,
      map (\<lambda>notification. (targetDays, notification)) notificationList)"

text \<open>\<^verbatim>\<open>lastSent && lastSent <= targetDays\<close>: \<^verbatim>\<open>null\<close> and \<open>0\<close> are falsy.\<close>

fun sentAlready :: "int option \<Rightarrow> int \<Rightarrow> bool" where
  "sentAlready None targetDays = False"
| "sentAlready (Some lastSent) targetDays = (lastSent \<noteq> 0 \<and> lastSent \<le> targetDays)"

text \<open>
  The loop over the sorted deadlines (lines 268 to 293): the deadline that was recorded, if
  any, and the sends attempted, in order.
\<close>

fun notifyLoop ::
  "env \<Rightarrow> int option \<Rightarrow> int option \<Rightarrow> provider list \<Rightarrow> int list \<Rightarrow> int option \<times> (int \<times> provider) list" where
  "notifyLoop e days lastSent notificationList [] = (None, [])"
| "notifyLoop e days lastSent notificationList (targetDays # rest) =
     (if js_greater days targetDays then notifyLoop e days lastSent notificationList rest
      else if sentAlready lastSent targetDays then notifyLoop e days lastSent notificationList rest
      else
        (case sendDomainNotificationByTargetDays e targetDays notificationList of
           (True, tried) \<Rightarrow> (Some targetDays, tried)
         | (False, tried) \<Rightarrow>
             (case notifyLoop e days lastSent notificationList rest of
                (r, later) \<Rightarrow> (r, tried @ later))))"

text \<open>\<^verbatim>\<open>isNaN(new Date(v).getTime())\<close>; \<^verbatim>\<open>new Date(null)\<close> is the epoch.\<close>

fun isNaNDate :: "jsval \<Rightarrow> bool" where
  "isNaNDate JUndefined = True"
| "isNaNDate JNull = False"
| "isNaNDate (JText d) = (d = Invalid)"
| "isNaNDate (JDate d) = (d = Invalid)"

text \<open>The sanity check of line 247: the stored expiry is absent or no date.\<close>

definition noValidExpiry :: "jsval \<Rightarrow> bool" where
  "noValidExpiry v = (\<not> truthy v \<or> isNaNDate v)"

record notify_result =
  returned :: "int option"
  table :: db
  setting :: "int list option"
  attempts :: "(int \<times> provider) list"

text \<open>
  \<^verbatim>\<open>DomainExpiry.sendNotifications\<close>. The setting \<^verbatim>\<open>domainExpiryNotifyDays\<close> is \<open>None\<close>
  when it is absent or no array. Reading \<^verbatim>\<open>expiry\<close> of a bean that is \<^verbatim>\<open>null\<close> throws.
\<close>

definition sendNotifications ::
  "env \<Rightarrow> db \<Rightarrow> int list option \<Rightarrow> string option \<Rightarrow> provider list \<Rightarrow> error + notify_result" where
  "sendNotifications e tbl notifySetting domainName notificationList =
     (if length notificationList = 0
      then Inr \<lparr>returned = None, table = tbl, setting = notifySetting, attempts = []\<rparr>
      else
        (case findByDomainNameOrCreate tbl domainName of
           None \<Rightarrow> Inl TypeError
         | Some d \<Rightarrow>
             if noValidExpiry (expiry d)
             then Inr \<lparr>returned = None, table = tbl, setting = notifySetting, attempts = []\<rparr>
             else
               (let notifyDays = (case notifySetting of None \<Rightarrow> [7, 14, 21] | Some ds \<Rightarrow> ds)
                in (case notifyLoop e (daysRemaining e d) (lastExpiryNotificationSent d)
                           notificationList (sort notifyDays) of
                      (Some targetDays, tried) \<Rightarrow>
                        Inr \<lparr>returned = Some targetDays,
                             table = store tbl (d\<lparr>lastExpiryNotificationSent := Some targetDays\<rparr>),
                             setting = Some notifyDays, attempts = tried\<rparr>
                    | (None, tried) \<Rightarrow>
                        Inr \<lparr>returned = None, table = tbl,
                             setting = Some notifyDays, attempts = tried\<rparr>))))"

section \<open>The monitor type\<close>

datatype status = DOWN | UP | PENDING | MAINTENANCE

record heartbeat =
  status :: status
  msg :: string

text \<open>A number in a template literal.\<close>

fun showNat :: "nat \<Rightarrow> string" where
  "showNat n =
     (if n < 10 then [char_of (48 + n)]
      else showNat (n div 10) @ [char_of (48 + n mod 10)])"

definition showInt :: "int \<Rightarrow> string" where
  "showInt i = (if i < 0 then ''-'' @ showNat (nat (- i)) else showNat (nat i))"

fun showNumber :: "int option \<Rightarrow> string" where
  "showNumber None = ''NaN''"
| "showNumber (Some i) = showInt i"

fun showString :: "string option \<Rightarrow> string" where
  "showString None = ''null''"
| "showString (Some s) = s"

definition noExpiryMessage :: "string option \<Rightarrow> string" where
  "noExpiryMessage d = ''No registry expiry date was found for domain '' @ showString d"

definition expiredMessage :: "string option \<Rightarrow> int \<Rightarrow> string" where
  "expiredMessage d days =
     ''Domain '' @ showString d @ '' expired '' @ showInt \<bar>days\<bar> @ '' day''
       @ (if \<bar>days\<bar> = 1 then [] else ''s'') @ '' ago''"

definition upMessage :: "env \<Rightarrow> string option \<Rightarrow> int option \<Rightarrow> int \<Rightarrow> string" where
  "upMessage e d days t =
     showString d @ '' expires in '' @ showNumber days @ '' days ('' @ toISOString e t @ '')''"

text \<open>
  \<^verbatim>\<open>DomainExpiryMonitorType.check\<close>: the exception thrown or the heartbeat, with the
  table and the names sent to the WHOIS client. A text has no \<^verbatim>\<open>getTime\<close>: calling it
  throws a \<^verbatim>\<open>TypeError\<close>, as reading \<^verbatim>\<open>daysRemaining\<close> of \<^verbatim>\<open>null\<close> does. NaN is not
  below zero and is printed as \<^verbatim>\<open>NaN\<close>.
\<close>

definition check :: "env \<Rightarrow> db \<Rightarrow> monitor \<Rightarrow> heartbeat \<Rightarrow> (error + heartbeat) \<times> db \<times> string list" where
  "check e tbl m hb =
     (case checkSupport e m of
        Inl err \<Rightarrow> (Inl err, tbl, [])
      | Inr supportInfo \<Rightarrow>
          (case checkExpiry e tbl (si_domain supportInfo) of
             Inl err \<Rightarrow> (Inl err, tbl, [])
           | Inr (expDate, tbl', queried) \<Rightarrow>
               (case expDate of
                  JUndefined \<Rightarrow> (Inl (Error (noExpiryMessage (si_domain supportInfo))), tbl', queried)
                | JNull \<Rightarrow> (Inl (Error (noExpiryMessage (si_domain supportInfo))), tbl', queried)
                | JText d \<Rightarrow> (Inl TypeError, tbl', queried)
                | JDate Invalid \<Rightarrow>
                    (Inl (Error (noExpiryMessage (si_domain supportInfo))), tbl', queried)
                | JDate (Valid t) \<Rightarrow>
                    (case findByDomainNameOrCreate tbl' (si_domain supportInfo) of
                       None \<Rightarrow> (Inl TypeError, tbl', queried)
                     | Some d \<Rightarrow>
                         (case daysRemaining e d of
                            None \<Rightarrow>
                              (Inr (hb\<lparr>status := UP,
                                       msg := upMessage e (si_domain supportInfo) None t\<rparr>),
                               tbl', queried)
                          | Some days \<Rightarrow>
                              if days < 0
                              then (Inl (Error (expiredMessage (si_domain supportInfo) days)),
                                    tbl', queried)
                              else (Inr (hb\<lparr>status := UP,
                                            msg := upMessage e (si_domain supportInfo)
                                                     (Some days) t\<rparr>),
                                    tbl', queried))))))"

section \<open>Vocabulary of the statements\<close>

text \<open>An entry whose attribute, trimmed, is one of the known expiry keys.\<close>

definition isExpiryEntry :: "env \<Rightarrow> string \<times> string \<Rightarrow> bool" where
  "isExpiryEntry e p = (trim e (fst p) \<in> set WHOIS_EXPIRY_KEYS)"

text \<open>A parsed date as the callback resolves it: an invalid date gives \<^verbatim>\<open>null\<close>.\<close>

definition dateOrNull :: "jsdate \<Rightarrow> jsval" where
  "dateOrNull d = (case d of Invalid \<Rightarrow> JNull | Valid t \<Rightarrow> JDate (Valid t))"

text \<open>
  The extractor in the words of the specification, for comparison with \<open>whoisCallback\<close>:
  the date comes from the first entry whose attribute name is exactly a known key.
\<close>

definition specFirstExpiry :: "env \<Rightarrow> (string \<times> string) list \<Rightarrow> jsval" where
  "specFirstExpiry e parsedData =
     (case find (\<lambda>p. fst p \<in> set WHOIS_EXPIRY_KEYS) parsedData of
        None \<Rightarrow> JNull
      | Some p \<Rightarrow> dateOrNull (newDate e (snd p)))"

text \<open>
  A deadline fires when the loop does not skip it and a send to some provider succeeds;
  \<open>inWindow\<close> is the part of the test that does not depend on the sends.
\<close>

definition inWindow :: "int option \<Rightarrow> int option \<Rightarrow> int \<Rightarrow> bool" where
  "inWindow days lastSent targetDays =
     (\<not> js_greater days targetDays \<and> \<not> sentAlready lastSent targetDays)"

definition fires :: "env \<Rightarrow> int option \<Rightarrow> int option \<Rightarrow> provider list \<Rightarrow> int \<Rightarrow> bool" where
  "fires e days lastSent notificationList targetDays =
     (inWindow days lastSent targetDays \<and> list_ex (sendOk e targetDays) notificationList)"

text \<open>The sends of one deadline: one to every provider, in the order of the list.\<close>

definition sendsFor :: "provider list \<Rightarrow> int \<Rightarrow> (int \<times> provider) list" where
  "sendsFor notificationList targetDays = map (Pair targetDays) notificationList"

text \<open>
  The deadlines a cycle evaluates: all of them when none fires, and otherwise those up to
  the first that fires, that one included.
\<close>

definition evaluated :: "env \<Rightarrow> int option \<Rightarrow> int option \<Rightarrow> provider list \<Rightarrow> int list \<Rightarrow> int list" where
  "evaluated e days lastSent notificationList ds =
     (case find (fires e days lastSent notificationList) ds of
        None \<Rightarrow> ds
      | Some targetDays \<Rightarrow>
          takeWhile (\<lambda>d. \<not> fires e days lastSent notificationList d) ds @ [targetDays])"

section \<open>Concrete inputs\<close>

text \<open>
  An environment for the examples: the clock stands at 2026-11-03T00:00:00Z, local time is
  UTC, and the parsers are given on the texts the examples use. The registry answers for
  \<^verbatim>\<open>example.com\<close> with one expiry line. The last case of \<open>exampleParseTld\<close> is a target
  that is no valid host name: \<^verbatim>\<open>tldts\<close> recognises no host name and no public suffix in it.
\<close>

definition exampleNewDate :: "string \<Rightarrow> jsdate" where
  "exampleNewDate s =
     (if s = ''2030-05-01T00:00:00Z'' then Valid 1903824000000
      else if s = ''2031-05-01T00:00:00Z'' then Valid 1935360000000
      else if s = ''2026-01-10T00:00:00Z'' then Valid 1768003200000
      else if s = ''2020-01-01'' then Valid 1577836800000
      else Invalid)"

text \<open>
  Trimming on the texts of the examples, which are ASCII: there the white space that
  \<^verbatim>\<open>String.prototype.trim\<close> removes is the space and the characters 9 to 13.
\<close>

definition asciiWhiteSpace :: "char \<Rightarrow> bool" where
  "asciiWhiteSpace c = (c \<in> set [CHR '' '', CHR 0x09, CHR 0x0A, CHR 0x0B, CHR 0x0C, CHR 0x0D])"

definition exampleTrim :: "string \<Rightarrow> string" where
  "exampleTrim s = rev (dropWhile asciiWhiteSpace (rev (dropWhile asciiWhiteSpace s)))"

definition exampleUrlHost :: "string \<Rightarrow> string option" where
  "exampleUrlHost s = (if take 7 s = ''http://'' then Some (drop 7 s) else None)"

definition noTld :: tld_result where
  "noTld = \<lparr>tld_hostname = None, tld_isIp = None, tld_publicSuffix = None, tld_domain = None\<rparr>"

definition exampleParseTld :: "string \<Rightarrow> tld_result" where
  "exampleParseTld s =
     (if s = ''https://www.example.co.uk/path''
      then \<lparr>tld_hostname = Some ''www.example.co.uk'', tld_isIp = Some False,
            tld_publicSuffix = Some ''co.uk'', tld_domain = Some ''example.co.uk''\<rparr>
      else if s = ''https://example.com''
      then \<lparr>tld_hostname = Some ''example.com'', tld_isIp = Some False,
            tld_publicSuffix = Some ''com'', tld_domain = Some ''example.com''\<rparr>
      else if s = ''192.168.0.1''
      then noTld\<lparr>tld_hostname := Some ''192.168.0.1'', tld_isIp := Some True\<rparr>
      else noTld\<lparr>tld_isIp := Some False\<rparr>)"

definition exampleEnv :: env where
  "exampleEnv =
     \<lparr>now = 1793664000000,
      localOffset = (\<lambda>t. 0),
      urlHost = exampleUrlHost,
      whoisLookup = (\<lambda>d. if d = ''example.com''
                           then LookupData ''Registry Expiry Date: 2030-05-01T00:00:00Z''
                           else LookupError),
      parseWhoIsData = (\<lambda>raw. if raw = ''Registry Expiry Date: 2030-05-01T00:00:00Z''
                              then [(''Registry Expiry Date'', ''2030-05-01T00:00:00Z'')]
                              else if raw = ''Registry Expiry Date: 2020-01-01''
                              then [(''Registry Expiry Date'', ''2020-01-01'')]
                              else []),
      newDate = exampleNewDate,
      trim = exampleTrim,
      parseTld = exampleParseTld,
      supportViaField = [''http'' \<mapsto> ''url''],
      sendOk = (\<lambda>t p. True),
      toISOString = (\<lambda>t. if t = 1903824000000 then ''2030-05-01T00:00:00.000Z'' else [])\<rparr>"

text \<open>The same environment with a registry that cannot be reached.\<close>

definition unreachableEnv :: env where
  "unreachableEnv = exampleEnv\<lparr>whoisLookup := (\<lambda>d. LookupError)\<rparr>"

text \<open>The registry of the renewal example: the expiry reported is 2026-01-10T00:00:00Z.\<close>

definition renewedEnv :: env where
  "renewedEnv =
     exampleEnv\<lparr>now := 1736035200000,
                whoisLookup := (\<lambda>d. LookupData ''Registry Expiry Date: 2026-01-10T00:00:00Z''),
                parseWhoIsData := (\<lambda>raw. [(''Registry Expiry Date'', ''2026-01-10T00:00:00Z'')])\<rparr>"

text \<open>The example environment with the clock at 2030-04-20T00:00:00Z.\<close>

definition aprilEnv :: env where
  "aprilEnv = exampleEnv\<lparr>now := 1902873600000\<rparr>"

text \<open>The example environment with a registry that reports the expiry 2020-01-01.\<close>

definition expiredEnv :: env where
  "expiredEnv = exampleEnv\<lparr>whoisLookup := (\<lambda>d. LookupData ''Registry Expiry Date: 2020-01-01'')\<rparr>"

text \<open>
  A record of \<^verbatim>\<open>example.com\<close>; the arguments are the stored expiry, the time of the last
  check and the last deadline notified.
\<close>

definition exampleBean :: "jsval \<Rightarrow> jsval \<Rightarrow> int option \<Rightarrow> bean" where
  "exampleBean expires checked lastSent =
     \<lparr>domain = ''example.com'', expiry = expires, lastCheck = checked,
      lastExpiryNotificationSent = lastSent, whois_info = None\<rparr>"

definition exampleProvider :: provider where
  "exampleProvider = \<lparr>name = ''mail'', config = ''{}''\<rparr>"

definition exampleMonitor :: "string \<Rightarrow> monitor" where
  "exampleMonitor target =
     \<lparr>type = ''http'', field = (\<lambda>f. if f = ''url'' then Some target else None)\<rparr>"

definition exampleHeartbeat :: heartbeat where
  "exampleHeartbeat = \<lparr>status = PENDING, msg = []\<rparr>"

section \<open>The extractor\<close>

lemma find_snoc:
  "find P (xs @ [x]) =
     (case find P xs of Some y \<Rightarrow> Some y | None \<Rightarrow> if P x then Some x else None)"
  by (induction xs) auto

text \<open>Every matching entry overwrites \<^verbatim>\<open>paidTillDate\<close>: the last one stays.\<close>

lemma whoisLoop_date:
  "fst (whoisLoop e ps (p, info)) =
     (case find (isExpiryEntry e) (rev ps) of
        Some q \<Rightarrow> Some (newDate e (snd q))
      | None \<Rightarrow> p)"
proof (induction ps arbitrary: p info)
  case Nil
  show ?case by simp
next
  case (Cons x ps)
  obtain a v where x: "x = (a, v)" by (cases x)
  show ?case
    by (simp add: x Cons.IH find_snoc isExpiryEntry_def split: option.split)
qed

lemma map_of_setProperty:
  "map_of (setProperty obj k v) =
     (if k = ''__proto__'' then map_of obj else (map_of obj)(k \<mapsto> v))"
  by (simp add: setProperty_def update_conv')

lemma whoisLoop_info:
  "map_of (snd (whoisLoop e ps (p, info))) k =
     (if k = ''__proto__'' then map_of info k
      else (case map_of (rev ps) k of Some v \<Rightarrow> Some v | None \<Rightarrow> map_of info k))"
proof (induction ps arbitrary: p info)
  case Nil
  show ?case by simp
next
  case (Cons x ps)
  obtain a v where x: "x = (a, v)" by (cases x)
  show ?case
    by (simp add: x Cons.IH map_of_setProperty map_add_def split: option.split)
qed

lemma whoisCallback_fields:
  "expiryDate (whoisCallback e ps) =
     (case fst (whoisLoop e ps (None, [])) of Some (Valid t) \<Rightarrow> JDate (Valid t) | _ \<Rightarrow> JNull)"
  "whoisInfo (whoisCallback e ps) = Some (snd (whoisLoop e ps (None, [])))"
  by (auto simp: whoisCallback_def split: prod.split option.split jsdate.split)

text \<open>
  C3, as the claim states it, fails. Of two entries with known expiry keys the callback
  takes the date of the second, the claim's extractor that of the first. An attribute that
  is a known key only after trimming gives a date, where an exact match gives none. An
  attribute named \<^verbatim>\<open>__proto__\<close> is seen and is not a key of the object.
\<close>

theorem whoisCallback_first_match_counterexample:
  "expiryDate (whoisCallback exampleEnv
       [(''Registry Expiry Date'', ''2030-05-01T00:00:00Z''),
        (''paid-till'', ''2031-05-01T00:00:00Z'')])
     = JDate (Valid 1935360000000)
   \<and> specFirstExpiry exampleEnv
       [(''Registry Expiry Date'', ''2030-05-01T00:00:00Z''),
        (''paid-till'', ''2031-05-01T00:00:00Z'')]
     = JDate (Valid 1903824000000)
   \<and> expiryDate (whoisCallback exampleEnv [('' paid-till'', ''2031-05-01T00:00:00Z'')])
     = JDate (Valid 1935360000000)
   \<and> specFirstExpiry exampleEnv [('' paid-till'', ''2031-05-01T00:00:00Z'')] = JNull
   \<and> whoisInfo (whoisCallback exampleEnv [(''__proto__'', ''x'')]) = Some []"
  by (simp add: whoisCallback_def specFirstExpiry_def dateOrNull_def exampleEnv_def
      exampleNewDate_def WHOIS_EXPIRY_KEYS_def exampleTrim_def asciiWhiteSpace_def setProperty_def)

text \<open>
  C3, amended. For every sequence of parsed entries the callback returns an object that maps
  every attribute name seen (but \<^verbatim>\<open>__proto__\<close>, which a JavaScript object does not store) to
  the value of its last occurrence, and it derives the expiry date from the LAST entry whose
  attribute name, trimmed by \<^verbatim>\<open>String.prototype.trim\<close>, is one of the known expiry keys: the date is
  \<^verbatim>\<open>null\<close> when there is no such entry or when the value of that entry is no date. The
  callback is total: no input makes it throw.
\<close>

theorem whoisCallback_last_match:
  "(\<exists>info. whoisInfo (whoisCallback e parsedData) = Some info \<and>
      (\<forall>k. map_of info k = (if k = ''__proto__'' then None else map_of (rev parsedData) k))) \<and>
   expiryDate (whoisCallback e parsedData) =
     (case find (isExpiryEntry e) (rev parsedData) of
        None \<Rightarrow> JNull
      | Some p \<Rightarrow> dateOrNull (newDate e (snd p)))"
proof -
  have "\<forall>k. map_of (snd (whoisLoop e parsedData (None, []))) k =
          (if k = ''__proto__'' then None else map_of (rev parsedData) k)"
    by (simp add: whoisLoop_info split: option.split)
  moreover have "expiryDate (whoisCallback e parsedData) =
     (case find (isExpiryEntry e) (rev parsedData) of
        None \<Rightarrow> JNull
      | Some p \<Rightarrow> dateOrNull (newDate e (snd p)))"
    by (simp add: whoisCallback_fields whoisLoop_date dateOrNull_def
        split: option.split jsdate.split)
  ultimately show ?thesis
    by (simp add: whoisCallback_fields)
qed

section \<open>The throttle and the check cycle\<close>

lemma absFloorDiv_less_one:
  assumes "0 < b"
  shows "absFloorDiv a b < 1 \<longleftrightarrow> a < b"
proof (cases "a < 0")
  case True
  then have "0 \<le> (- a) div b"
    using assms by (simp add: pos_imp_zdiv_nonneg_iff)
  then show ?thesis
    using True assms by (simp add: absFloorDiv_def)
next
  case False
  have "0 < a div b \<longleftrightarrow> b \<le> a"
    using assms by (rule pos_imp_zdiv_pos_iff)
  then have "a div b < 1 \<longleftrightarrow> a < b"
    by linarith
  then show ?thesis
    using False by (simp add: absFloorDiv_def)
qed

text \<open>
  The test of line 209 subtracts the clock from the time of the last check: it holds for a
  last check at any time in the past, and fails only for one a day or more ahead of the clock.
\<close>

lemma checkedRecently_iff:
  "checkedRecently e b \<longleftrightarrow>
     (\<exists>t. (lastCheck b = JText (Valid t) \<or> lastCheck b = JDate (Valid t)) \<and>
          t < now e + MILLISECONDS_A_DAY)"
proof (cases "lastCheck b")
  case (JText d)
  then show ?thesis
    by (cases d) (auto simp: checkedRecently_def absFloorDiv_less_one MILLISECONDS_A_DAY_def)
next
  case (JDate d)
  then show ?thesis
    by (cases d) (auto simp: checkedRecently_def absFloorDiv_less_one MILLISECONDS_A_DAY_def)
qed (simp_all add: checkedRecently_def)

lemma checkExpiry_cached:
  "findByDomainNameOrCreate tbl domainName = Some b \<Longrightarrow> checkedRecently e b \<Longrightarrow>
   checkExpiry e tbl domainName = Inr (expiry b, tbl, [])"
  by (simp add: checkExpiry_def)

lemma checkExpiry_fresh:
  "findByDomainNameOrCreate tbl domainName = Some b \<Longrightarrow> \<not> checkedRecently e b \<Longrightarrow>
   getWhoisDomainExpiryDate e (domain b) = Inr (result, queried) \<Longrightarrow>
   checkExpiry e tbl domainName =
     Inr (if expiryDate result = JNull then JUndefined else expiryDate result,
          store tbl
            ((if isAfter (dayjs_utc e (expiryDate result)) (dayjs_utc e (expiry b))
              then b\<lparr>lastExpiryNotificationSent := None\<rparr> else b)
               \<lparr>expiry := isoDateTimeMillis e (expiryDate result),
                lastCheck := isoDateTimeMillisNow e,
                whois_info := whoisInfo result\<rparr>),
          queried)"
  by (simp add: checkExpiry_def Let_def)

lemma example_find:
  "findByDomainNameOrCreate [''example.com'' \<mapsto> b] (Some ''example.com'') = Some b"
  by (simp add: findByDomainNameOrCreate_def findByName_def)

lemma unreachable_query:
  "getWhoisDomainExpiryDate unreachableEnv ''example.com'' =
     Inr (\<lparr>expiryDate = JNull, whoisInfo = None\<rparr>, [''example.com''])"
  by (simp add: getWhoisDomainExpiryDate_def normalizeDomain_def unreachableEnv_def
      exampleEnv_def exampleUrlHost_def)

lemma renewed_query:
  "getWhoisDomainExpiryDate renewedEnv ''example.com'' =
     Inr (\<lparr>expiryDate = JDate (Valid 1768003200000),
           whoisInfo = Some [(''Registry Expiry Date'', ''2026-01-10T00:00:00Z'')]\<rparr>,
          [''example.com''])"
  by (simp add: getWhoisDomainExpiryDate_def normalizeDomain_def renewedEnv_def exampleEnv_def
      exampleUrlHost_def whoisCallback_def exampleNewDate_def WHOIS_EXPIRY_KEYS_def exampleTrim_def
      asciiWhiteSpace_def setProperty_def)

lemma now_example: "now exampleEnv = 1793664000000"
  by (simp add: exampleEnv_def)

lemma now_unreachable: "now unreachableEnv = 1793664000000"
  by (simp add: unreachableEnv_def exampleEnv_def)

lemma now_renewed: "now renewedEnv = 1736035200000" "localOffset renewedEnv t = 0"
  by (simp_all add: renewedEnv_def exampleEnv_def)

text \<open>
  C1, at a failing input. The clock stands at 2026-11-03T00:00:00Z and the record of
  \<^verbatim>\<open>example.com\<close> was last checked at 2026-11-01T00:00:00Z, two full days before. The
  difference in days is \<open>- 2\<close>, which is below \<open>1\<close>: the stored expiry is returned, the table
  is as it was and no name goes to the WHOIS client, although the registry would answer.
\<close>

theorem checkExpiry_stale_record_not_queried:
  "checkExpiry exampleEnv
     [''example.com'' \<mapsto>
        exampleBean (JText (Valid 1903824000000)) (JText (Valid 1793491200000)) None]
     (Some ''example.com'')
   = Inr (JText (Valid 1903824000000),
          [''example.com'' \<mapsto>
             exampleBean (JText (Valid 1903824000000)) (JText (Valid 1793491200000)) None],
          [])
   \<and> diff_day (Valid 1793491200000) (Valid (now exampleEnv)) = Some (- 2)"
  by (simp add: checkExpiry_def example_find checkedRecently_def exampleBean_def
      now_example absFloorDiv_def MILLISECONDS_A_DAY_def)

text \<open>
  C2, as the claim states it, fails. The record has an expiry and a last check (two days
  ahead of the clock, so that the cycle queries); the registry cannot be reached. The cycle
  stores the text of an invalid date as the expiry and the clock as the last check.
\<close>

theorem checkExpiry_failed_check_counterexample:
  "checkExpiry unreachableEnv
     [''example.com'' \<mapsto>
        exampleBean (JText (Valid 1903824000000)) (JText (Valid 1793836800000)) (Some 7)]
     (Some ''example.com'')
   = Inr (JUndefined,
          [''example.com'' \<mapsto>
             \<lparr>domain = ''example.com'', expiry = JText Invalid,
              lastCheck = JText (Valid 1793664000000),
              lastExpiryNotificationSent = Some 7, whois_info = None\<rparr>],
          [''example.com''])"
proof -
  let ?b = "exampleBean (JText (Valid 1903824000000)) (JText (Valid 1793836800000)) (Some 7)"
  have fresh: "\<not> checkedRecently unreachableEnv ?b"
    by (simp add: checkedRecently_def exampleBean_def now_unreachable absFloorDiv_def
        MILLISECONDS_A_DAY_def)
  have query: "getWhoisDomainExpiryDate unreachableEnv (domain ?b) =
      Inr (\<lparr>expiryDate = JNull, whoisInfo = None\<rparr>, [''example.com''])"
    by (simp add: exampleBean_def unreachable_query)
  have "checkExpiry unreachableEnv [''example.com'' \<mapsto> ?b] (Some ''example.com'') =
      Inr (JUndefined,
           store [''example.com'' \<mapsto> ?b]
             (?b\<lparr>expiry := JText Invalid, lastCheck := JText (Valid 1793664000000),
                  whois_info := None\<rparr>),
           [''example.com''])"
    by (simp add: checkExpiry_fresh [OF example_find fresh query] isoDateTimeMillisNow_def
        now_unreachable)
  then show ?thesis
    by (simp add: store_def exampleBean_def)
qed

text \<open>
  C2, amended. For every record, a cycle of \<^verbatim>\<open>checkExpiry\<close> that queries the registry and
  in which the extractor finds no date never rewrites the stored expiry to \<^verbatim>\<open>null\<close> and
  leaves the domain and the last deadline notified untouched; it replaces the expiry by the
  text written for the missing date (which is no date), stamps the last check with the clock
  and stores the registry information; it returns \<^verbatim>\<open>undefined\<close>.
\<close>

theorem checkExpiry_no_date_frame:
  assumes "findByDomainNameOrCreate tbl domainName = Some b"
    and "\<not> checkedRecently e b"
    and "getWhoisDomainExpiryDate e (domain b) = Inr (result, queried)"
    and "expiryDate result = JNull"
  shows "checkExpiry e tbl domainName =
     Inr (JUndefined,
          store tbl (b\<lparr>expiry := JText Invalid, lastCheck := JText (Valid (now e)),
                       whois_info := whoisInfo result\<rparr>),
          queried)"
  using assms by (simp add: checkExpiry_fresh isoDateTimeMillisNow_def)

theorem checkExpiry_no_date_frame_witness:
  "findByDomainNameOrCreate
     [''example.com'' \<mapsto> exampleBean (JText (Valid 1903824000000)) JNull (Some 14)]
     (Some ''example.com'')
     = Some (exampleBean (JText (Valid 1903824000000)) JNull (Some 14))
   \<and> \<not> checkedRecently unreachableEnv (exampleBean (JText (Valid 1903824000000)) JNull (Some 14))
   \<and> getWhoisDomainExpiryDate unreachableEnv ''example.com''
     = Inr (\<lparr>expiryDate = JNull, whoisInfo = None\<rparr>, [''example.com''])
   \<and> checkExpiry unreachableEnv
       [''example.com'' \<mapsto> exampleBean (JText (Valid 1903824000000)) JNull (Some 14)]
       (Some ''example.com'')
     = Inr (JUndefined,
            [''example.com'' \<mapsto>
               exampleBean (JText Invalid) (JText (Valid 1793664000000)) (Some 14)],
            [''example.com''])"
proof -
  let ?b = "exampleBean (JText (Valid 1903824000000)) JNull (Some 14)"
  have fresh: "\<not> checkedRecently unreachableEnv ?b"
    by (simp add: checkedRecently_def exampleBean_def)
  have query: "getWhoisDomainExpiryDate unreachableEnv (domain ?b) =
      Inr (\<lparr>expiryDate = JNull, whoisInfo = None\<rparr>, [''example.com''])"
    by (simp add: exampleBean_def unreachable_query)
  have "checkExpiry unreachableEnv [''example.com'' \<mapsto> ?b] (Some ''example.com'') =
      Inr (JUndefined,
           store [''example.com'' \<mapsto> ?b]
             (?b\<lparr>expiry := JText Invalid, lastCheck := JText (Valid (now unreachableEnv)),
                  whois_info := whoisInfo \<lparr>expiryDate = JNull, whoisInfo = None\<rparr>\<rparr>),
           [''example.com''])"
    by (rule checkExpiry_no_date_frame [OF example_find fresh query]) simp
  then have "checkExpiry unreachableEnv [''example.com'' \<mapsto> ?b] (Some ''example.com'') =
      Inr (JUndefined,
           [''example.com'' \<mapsto>
              exampleBean (JText Invalid) (JText (Valid 1793664000000)) (Some 14)],
           [''example.com''])"
    by (simp add: store_def exampleBean_def now_unreachable)
  with fresh show ?thesis
    by (simp add: example_find unreachable_query)
qed

text \<open>
  C4. For every record with a stored expiry, a cycle of \<^verbatim>\<open>checkExpiry\<close> that queries the
  registry and extracts a date strictly later than the stored expiry stores the record with
  the last deadline notified cleared, together with the new expiry; an equal or earlier
  date leaves the last deadline notified as it was.
\<close>

theorem checkExpiry_renewal_clears_notification:
  assumes "findByDomainNameOrCreate tbl domainName = Some b"
    and "\<not> checkedRecently e b"
    and "getWhoisDomainExpiryDate e (domain b) = Inr (result, queried)"
    and "expiryDate result = JDate (Valid fresh)"
    and "expiry b = JText (Valid previous)"
  shows "checkExpiry e tbl domainName =
     Inr (JDate (Valid fresh),
          store tbl
            (b\<lparr>lastExpiryNotificationSent :=
                 (if previous < fresh then None else lastExpiryNotificationSent b),
               expiry := JText (Valid (fresh + localOffset e fresh)),
               lastCheck := JText (Valid (now e)),
               whois_info := whoisInfo result\<rparr>),
          queried)"
  using assms by (simp add: checkExpiry_fresh isoDateTimeMillisNow_def)

theorem checkExpiry_renewal_clears_notification_witness:
  "findByDomainNameOrCreate
     [''example.com'' \<mapsto> exampleBean (JText (Valid 1736467200000)) JNull (Some 7)]
     (Some ''example.com'')
     = Some (exampleBean (JText (Valid 1736467200000)) JNull (Some 7))
   \<and> \<not> checkedRecently renewedEnv (exampleBean (JText (Valid 1736467200000)) JNull (Some 7))
   \<and> getWhoisDomainExpiryDate renewedEnv ''example.com''
     = Inr (\<lparr>expiryDate = JDate (Valid 1768003200000),
             whoisInfo = Some [(''Registry Expiry Date'', ''2026-01-10T00:00:00Z'')]\<rparr>,
            [''example.com''])
   \<and> checkExpiry renewedEnv
       [''example.com'' \<mapsto> exampleBean (JText (Valid 1736467200000)) JNull (Some 7)]
       (Some ''example.com'')
     = Inr (JDate (Valid 1768003200000),
            [''example.com'' \<mapsto>
               \<lparr>domain = ''example.com'', expiry = JText (Valid 1768003200000),
                lastCheck = JText (Valid 1736035200000),
                lastExpiryNotificationSent = None,
                whois_info = Some [(''Registry Expiry Date'', ''2026-01-10T00:00:00Z'')]\<rparr>],
            [''example.com''])"
proof -
  let ?b = "exampleBean (JText (Valid 1736467200000)) JNull (Some 7)"
  let ?r = "\<lparr>expiryDate = JDate (Valid 1768003200000),
             whoisInfo = Some [(''Registry Expiry Date'', ''2026-01-10T00:00:00Z'')]\<rparr>"
  have fresh: "\<not> checkedRecently renewedEnv ?b"
    by (simp add: checkedRecently_def exampleBean_def)
  have query: "getWhoisDomainExpiryDate renewedEnv (domain ?b) = Inr (?r, [''example.com''])"
    by (simp add: exampleBean_def renewed_query)
  have "checkExpiry renewedEnv [''example.com'' \<mapsto> ?b] (Some ''example.com'') =
      Inr (JDate (Valid 1768003200000),
           store [''example.com'' \<mapsto> ?b]
             (?b\<lparr>lastExpiryNotificationSent :=
                   (if (1736467200000 :: int) < 1768003200000 then None
                    else lastExpiryNotificationSent ?b),
                 expiry := JText (Valid (1768003200000 + localOffset renewedEnv 1768003200000)),
                 lastCheck := JText (Valid (now renewedEnv)),
                 whois_info := whoisInfo ?r\<rparr>),
           [''example.com''])"
    by (rule checkExpiry_renewal_clears_notification [OF example_find fresh query])
      (simp_all add: exampleBean_def)
  then have "checkExpiry renewedEnv [''example.com'' \<mapsto> ?b] (Some ''example.com'') =
      Inr (JDate (Valid 1768003200000),
           [''example.com'' \<mapsto>
              \<lparr>domain = ''example.com'', expiry = JText (Valid 1768003200000),
               lastCheck = JText (Valid 1736035200000),
               lastExpiryNotificationSent = None,
               whois_info = Some [(''Registry Expiry Date'', ''2026-01-10T00:00:00Z'')]\<rparr>],
           [''example.com''])"
    by (simp add: store_def exampleBean_def now_renewed)
  with fresh show ?thesis
    by (simp add: example_find renewed_query)
qed

text \<open>
  C7. For every registry query, an error that the WHOIS client reports is turned into the
  value with no expiry date and no registry information, not into an exception; and
  whenever a cycle of \<^verbatim>\<open>checkExpiry\<close> extracts no date (\<^verbatim>\<open>null\<close>), the call returns
  normally and its value is \<^verbatim>\<open>undefined\<close>, neither \<^verbatim>\<open>null\<close> nor a date.
\<close>

theorem soft_failure_returns_undefined:
  "(normalizeDomain e d = Inr normalizedDomain \<and> whoisLookup e normalizedDomain = LookupError
      \<longrightarrow> getWhoisDomainExpiryDate e d =
            Inr (\<lparr>expiryDate = JNull, whoisInfo = None\<rparr>, [normalizedDomain]))
   \<and> (findByDomainNameOrCreate tbl domainName = Some b \<and> \<not> checkedRecently e b
        \<and> getWhoisDomainExpiryDate e (domain b) = Inr (result, queried)
        \<and> expiryDate result = JNull
      \<longrightarrow> (\<exists>tbl'. checkExpiry e tbl domainName = Inr (JUndefined, tbl', queried)))"
  by (simp add: getWhoisDomainExpiryDate_def checkExpiry_fresh)

theorem soft_failure_returns_undefined_witness:
  "normalizeDomain unreachableEnv ''example.com'' = Inr ''example.com''
   \<and> whoisLookup unreachableEnv ''example.com'' = LookupError
   \<and> getWhoisDomainExpiryDate unreachableEnv ''example.com''
     = Inr (\<lparr>expiryDate = JNull, whoisInfo = None\<rparr>, [''example.com''])
   \<and> findByDomainNameOrCreate Map.empty (Some ''example.com'') = Some (createByName ''example.com'')
   \<and> \<not> checkedRecently unreachableEnv (createByName ''example.com'')
   \<and> (\<exists>tbl'. checkExpiry unreachableEnv Map.empty (Some ''example.com'')
               = Inr (JUndefined, tbl', [''example.com'']))"
proof -
  have norm: "normalizeDomain unreachableEnv ''example.com'' = Inr ''example.com''"
    by (simp add: normalizeDomain_def unreachableEnv_def exampleEnv_def exampleUrlHost_def)
  have look: "whoisLookup unreachableEnv ''example.com'' = LookupError"
    by (simp add: unreachableEnv_def)
  have find: "findByDomainNameOrCreate Map.empty (Some ''example.com'')
      = Some (createByName ''example.com'')"
    by (simp add: findByDomainNameOrCreate_def findByName_def)
  have fresh: "\<not> checkedRecently unreachableEnv (createByName ''example.com'')"
    by (simp add: checkedRecently_def createByName_def)
  have dom: "domain (createByName ''example.com'') = ''example.com''"
    by (simp add: createByName_def)
  note inst = soft_failure_returns_undefined
    [of unreachableEnv "''example.com''" "''example.com''" Map.empty "Some ''example.com''"
      "createByName ''example.com''" "\<lparr>expiryDate = JNull, whoisInfo = None\<rparr>"
      "[''example.com'']"]
  have query: "getWhoisDomainExpiryDate unreachableEnv ''example.com''
      = Inr (\<lparr>expiryDate = JNull, whoisInfo = None\<rparr>, [''example.com''])"
    using inst norm look by blast
  have "\<exists>tbl'. checkExpiry unreachableEnv Map.empty (Some ''example.com'')
               = Inr (JUndefined, tbl', [''example.com''])"
    using inst find fresh query dom by simp
  with norm look find fresh query show ?thesis
    by blast
qed

section \<open>The notification thresholds: first deadline that fires\<close>

lemma sendToAll_eq:
  "sendToAll e targetDays ns sent \<longleftrightarrow> sent \<or> list_ex (sendOk e targetDays) ns"
  by (induction ns arbitrary: sent) auto

lemma sendDomainNotificationByTargetDays_eq:
  "sendDomainNotificationByTargetDays e targetDays ns =
     (list_ex (sendOk e targetDays) ns, sendsFor ns targetDays)"
  by (simp add: sendDomainNotificationByTargetDays_def sendToAll_eq sendsFor_def)

text \<open>The loop returns the first deadline of the list that fires.\<close>

lemma notifyLoop_returned:
  "fst (notifyLoop e days lastSent ns ds) = find (fires e days lastSent ns) ds"
proof (induction ds)
  case Nil
  show ?case by simp
next
  case (Cons t ds)
  then show ?case
    by (auto simp: sendDomainNotificationByTargetDays_eq fires_def inWindow_def
        split: prod.split bool.split)
qed

text \<open>
  The sends of the loop: those of the deadlines it evaluated and did not skip, and none for
  a deadline after the one that fires.
\<close>

lemma evaluated_Cons:
  "evaluated e days lastSent ns (t # ds) =
     (if fires e days lastSent ns t then [t] else t # evaluated e days lastSent ns ds)"
  by (simp add: evaluated_def split: option.split)

lemma notifyLoop_attempts:
  "snd (notifyLoop e days lastSent ns ds) =
     concat (map (sendsFor ns)
       (filter (inWindow days lastSent) (evaluated e days lastSent ns ds)))"
proof (induction ds)
  case Nil
  show ?case by (simp add: evaluated_def)
next
  case (Cons t ds)
  show ?case
  proof (cases "fires e days lastSent ns t")
    case True
    then show ?thesis
      by (simp add: evaluated_Cons sendDomainNotificationByTargetDays_eq fires_def
          inWindow_def)
  next
    case False
    then show ?thesis
      using Cons.IH
      by (auto simp: evaluated_Cons sendDomainNotificationByTargetDays_eq fires_def
          inWindow_def split: prod.split bool.split)
  qed
qed

lemma find_sorted_least:
  "sorted xs \<Longrightarrow> find P xs = Some x \<Longrightarrow> y \<in> set xs \<Longrightarrow> P y \<Longrightarrow> x \<le> (y :: int)"
  by (induction xs) (auto split: if_splits)

lemma sendNotifications_run:
  assumes "findByDomainNameOrCreate tbl domainName = Some d"
    and "truthy (expiry d)" and "\<not> isNaNDate (expiry d)" and "ns \<noteq> []"
  shows "sendNotifications e tbl notifySetting domainName ns =
     (let notifyDays = (case notifySetting of None \<Rightarrow> [7, 14, 21] | Some ds \<Rightarrow> ds);
          days = daysRemaining e d;
          lastSent = lastExpiryNotificationSent d
      in Inr \<lparr>returned = find (fires e days lastSent ns) (sort notifyDays),
              table = (case find (fires e days lastSent ns) (sort notifyDays) of
                         None \<Rightarrow> tbl
                       | Some t \<Rightarrow> store tbl (d\<lparr>lastExpiryNotificationSent := Some t\<rparr>)),
              setting = Some notifyDays,
              attempts = concat (map (sendsFor ns)
                (filter (inWindow days lastSent)
                   (evaluated e days lastSent ns (sort notifyDays))))\<rparr>)"
proof -
  let ?nd = "case notifySetting of None \<Rightarrow> [7, 14, 21] | Some ds \<Rightarrow> ds"
  let ?loop = "notifyLoop e (daysRemaining e d) (lastExpiryNotificationSent d) ns (sort ?nd)"
  have loop: "?loop = (find (fires e (daysRemaining e d) (lastExpiryNotificationSent d) ns)
                         (sort ?nd),
                       concat (map (sendsFor ns)
                         (filter (inWindow (daysRemaining e d) (lastExpiryNotificationSent d))
                            (evaluated e (daysRemaining e d) (lastExpiryNotificationSent d) ns
                               (sort ?nd)))))"
    using notifyLoop_returned [of e "daysRemaining e d" "lastExpiryNotificationSent d" ns "sort ?nd"]
      notifyLoop_attempts [of e "daysRemaining e d" "lastExpiryNotificationSent d" ns "sort ?nd"]
    by (metis prod.collapse)
  show ?thesis
    using assms
    by (simp add: sendNotifications_def noValidExpiry_def Let_def loop split: option.split)
qed

lemma example_days:
  "daysRemaining exampleEnv (exampleBean (JText (Valid 1794139200000)) c l) = Some 5"
  "daysRemaining exampleEnv (exampleBean (JText (Valid 1793707200000)) c l) = Some 0"
  by (simp_all add: daysRemaining_def exampleBean_def now_example absFloorDiv_def
      MILLISECONDS_A_DAY_def)

text \<open>
  C5. For every record with a valid expiry and every non-empty list of providers,
  \<^verbatim>\<open>sendNotifications\<close> goes through the deadlines in ascending order and stops at the first
  one that it does not skip and for which a send to some provider succeeds: it returns that
  deadline, stores the record with it as the last deadline notified, and has sent nothing for
  a later deadline; that deadline is the smallest one that fires. When none fires, nothing
  is stored. In particular, with 5 days remaining, the deadlines 7, 14 and 21, no earlier
  notification and a provider whose send for the deadline 7 succeeds, the sends are exactly
  those of the deadline 7.
\<close>

theorem sendNotifications_smallest_first:
  assumes "findByDomainNameOrCreate tbl domainName = Some d"
    and "truthy (expiry d)" and "\<not> isNaNDate (expiry d)" and "ns \<noteq> []"
  shows
    "(let notifyDays = (case notifySetting of None \<Rightarrow> [7, 14, 21] | Some ds \<Rightarrow> ds);
          days = daysRemaining e d;
          lastSent = lastExpiryNotificationSent d;
          first = find (fires e days lastSent ns) (sort notifyDays)
      in sendNotifications e tbl notifySetting domainName ns =
           Inr \<lparr>returned = first,
                table = (case first of
                           None \<Rightarrow> tbl
                         | Some t \<Rightarrow> store tbl (d\<lparr>lastExpiryNotificationSent := Some t\<rparr>)),
                setting = Some notifyDays,
                attempts = concat (map (sendsFor ns)
                  (filter (inWindow days lastSent)
                     (evaluated e days lastSent ns (sort notifyDays))))\<rparr>
         \<and> (\<forall>t. first = Some t \<longrightarrow>
               fires e days lastSent ns t \<and>
               (\<forall>t' \<in> set notifyDays. fires e days lastSent ns t' \<longrightarrow> t \<le> t'))
         \<and> (days = Some 5 \<and> lastSent = None \<and> sort notifyDays = [7, 14, 21]
              \<and> list_ex (sendOk e 7) ns \<longrightarrow>
             sendNotifications e tbl notifySetting domainName ns =
               Inr \<lparr>returned = Some 7,
                    table = store tbl (d\<lparr>lastExpiryNotificationSent := Some 7\<rparr>),
                    setting = Some notifyDays,
                    attempts = sendsFor ns 7\<rparr>))"
proof -
  let ?nd = "case notifySetting of None \<Rightarrow> [7, 14, 21] | Some ds \<Rightarrow> ds"
  let ?days = "daysRemaining e d"
  let ?last = "lastExpiryNotificationSent d"
  let ?first = "find (fires e ?days ?last ns) (sort ?nd)"
  have run: "sendNotifications e tbl notifySetting domainName ns =
      Inr \<lparr>returned = ?first,
           table = (case ?first of
                      None \<Rightarrow> tbl
                    | Some t \<Rightarrow> store tbl (d\<lparr>lastExpiryNotificationSent := Some t\<rparr>)),
           setting = Some ?nd,
           attempts = concat (map (sendsFor ns)
             (filter (inWindow ?days ?last) (evaluated e ?days ?last ns (sort ?nd))))\<rparr>"
    using sendNotifications_run [OF assms, where e = e and notifySetting = notifySetting]
    by (simp add: Let_def)
  have least: "fires e ?days ?last ns t \<and>
      (\<forall>t' \<in> set ?nd. fires e ?days ?last ns t' \<longrightarrow> t \<le> t')" if "?first = Some t" for t
  proof
    show "fires e ?days ?last ns t"
      using that by (auto simp: find_Some_iff)
    show "\<forall>t' \<in> set ?nd. fires e ?days ?last ns t' \<longrightarrow> t \<le> t'"
      using find_sorted_least [OF _ that] by auto
  qed
  have five: "sendNotifications e tbl notifySetting domainName ns =
      Inr \<lparr>returned = Some 7,
           table = store tbl (d\<lparr>lastExpiryNotificationSent := Some 7\<rparr>),
           setting = Some ?nd, attempts = sendsFor ns 7\<rparr>"
    if "?days = Some 5" "?last = None" "sort ?nd = [7, 14, 21]" "list_ex (sendOk e 7) ns"
  proof -
    have "fires e (Some 5) None ns 7"
      using that(4) by (simp add: fires_def inWindow_def)
    then show ?thesis
      unfolding run that(1,2,3)
      by (simp add: evaluated_def inWindow_def)
  qed
  show ?thesis
    unfolding Let_def using run least five by blast
qed

theorem sendNotifications_smallest_first_witness:
  "findByDomainNameOrCreate
     [''example.com'' \<mapsto> exampleBean (JText (Valid 1794139200000)) JNull None]
     (Some ''example.com'')
     = Some (exampleBean (JText (Valid 1794139200000)) JNull None)
   \<and> truthy (expiry (exampleBean (JText (Valid 1794139200000)) JNull None))
   \<and> \<not> isNaNDate (expiry (exampleBean (JText (Valid 1794139200000)) JNull None))
   \<and> [exampleProvider] \<noteq> []
   \<and> daysRemaining exampleEnv (exampleBean (JText (Valid 1794139200000)) JNull None) = Some 5
   \<and> list_ex (sendOk exampleEnv 7) [exampleProvider]
   \<and> sendNotifications exampleEnv
       [''example.com'' \<mapsto> exampleBean (JText (Valid 1794139200000)) JNull None]
       None (Some ''example.com'') [exampleProvider]
     = Inr \<lparr>returned = Some 7,
            table = [''example.com'' \<mapsto> exampleBean (JText (Valid 1794139200000)) JNull (Some 7)],
            setting = Some [7, 14, 21],
            attempts = [(7, exampleProvider)]\<rparr>"
proof -
  let ?b = "exampleBean (JText (Valid 1794139200000)) JNull None"
  have valid: "truthy (expiry ?b)" "\<not> isNaNDate (expiry ?b)"
    by (simp_all add: exampleBean_def)
  have ne: "[exampleProvider] \<noteq> []"
    by simp
  have ok: "list_ex (sendOk exampleEnv 7) [exampleProvider]"
    by (simp add: exampleEnv_def)
  have last: "lastExpiryNotificationSent ?b = None"
    by (simp add: exampleBean_def)
  have sorted_default: "sort (case None of None \<Rightarrow> [7, 14, 21] | Some ds \<Rightarrow> ds) = [7, 14, 21 :: int]"
    by simp
  note inst = sendNotifications_smallest_first [OF example_find valid ne,
      where e = exampleEnv and notifySetting = None, unfolded Let_def]
  have "sendNotifications exampleEnv [''example.com'' \<mapsto> ?b] None (Some ''example.com'')
      [exampleProvider]
    = Inr \<lparr>returned = Some 7,
           table = store [''example.com'' \<mapsto> ?b] (?b\<lparr>lastExpiryNotificationSent := Some 7\<rparr>),
           setting = Some (case None of None \<Rightarrow> [7, 14, 21] | Some ds \<Rightarrow> ds),
           attempts = sendsFor [exampleProvider] 7\<rparr>"
    by (rule inst [THEN conjunct2, THEN conjunct2, THEN mp])
      (intro conjI example_days(1) last sorted_default ok)
  then have "sendNotifications exampleEnv [''example.com'' \<mapsto> ?b] None (Some ''example.com'')
      [exampleProvider]
    = Inr \<lparr>returned = Some 7,
           table = [''example.com'' \<mapsto> exampleBean (JText (Valid 1794139200000)) JNull (Some 7)],
           setting = Some [7, 14, 21],
           attempts = [(7, exampleProvider)]\<rparr>"
    by (simp add: store_def exampleBean_def sendsFor_def)
  with valid ok show ?thesis
    by (simp add: example_find example_days)
qed

text \<open>
  C6, at a failing input. The deadlines are 0, 7 and 14, the domain expires in twelve hours
  (0 days remain) and the notification of the deadline 0 was sent already: the last deadline
  notified is \<open>0\<close>. The test of line 275 takes \<open>0\<close> for an absent value, so the deadline 0 is
  not skipped: the notification is sent and recorded once more.
\<close>

theorem sendNotifications_zero_deadline_sent_again:
  "sendNotifications exampleEnv
     [''example.com'' \<mapsto> exampleBean (JText (Valid 1793707200000)) JNull (Some 0)]
     (Some [0, 7, 14]) (Some ''example.com'') [exampleProvider]
   = Inr \<lparr>returned = Some 0,
          table = [''example.com'' \<mapsto> exampleBean (JText (Valid 1793707200000)) JNull (Some 0)],
          setting = Some [0, 7, 14],
          attempts = [(0, exampleProvider)]\<rparr>"
proof -
  let ?b = "exampleBean (JText (Valid 1793707200000)) JNull (Some 0)"
  have "notifyLoop exampleEnv (Some 0) (Some 0) [exampleProvider] [0, 7, 14]
      = (Some 0, [(0, exampleProvider)])"
    by (simp add: sendDomainNotificationByTargetDays_def exampleEnv_def)
  then have "sendNotifications exampleEnv [''example.com'' \<mapsto> ?b] (Some [0, 7, 14])
      (Some ''example.com'') [exampleProvider]
    = Inr \<lparr>returned = Some 0,
           table = store [''example.com'' \<mapsto> ?b] (?b\<lparr>lastExpiryNotificationSent := Some 0\<rparr>),
           setting = Some [0, 7, 14],
           attempts = [(0, exampleProvider)]\<rparr>"
    using example_days(2) [of JNull "Some 0"]
    by (simp add: sendNotifications_def noValidExpiry_def example_find exampleBean_def)
  then show ?thesis
    by (simp add: store_def exampleBean_def)
qed

section \<open>Support of a monitor: the failures and the result\<close>

lemma splitDot_not_Nil: "splitDot s \<noteq> []"
  by (induction s) auto

lemma splitDot_no_dot: "CHR ''.'' \<notin> set s \<Longrightarrow> splitDot s = [s]"
  by (induction s) auto

lemma splitDot_tl_Nil: "tl (splitDot s) = [] \<longleftrightarrow> CHR ''.'' \<notin> set s"
  by (induction s) (auto simp: splitDot_not_Nil)

text \<open>
  The last part of a text split at its dots has no dot, and the text is that part or ends
  with a dot followed by that part.
\<close>

lemma last_splitDot:
  "CHR ''.'' \<notin> set (last (splitDot s)) \<and>
   (last (splitDot s) = s \<or> suffix (CHR ''.'' # last (splitDot s)) s)"
proof (induction s)
  case Nil
  show ?case by simp
next
  case (Cons c cs)
  show ?case
  proof (cases "c = CHR ''.''")
    case True
    then show ?thesis
      using Cons.IH by (auto simp: splitDot_not_Nil suffix_ConsI)
  next
    case False
    show ?thesis
    proof (cases "CHR ''.'' \<in> set cs")
      case True
      then have "tl (splitDot cs) \<noteq> []"
        by (simp add: splitDot_tl_Nil)
      then have "last (splitDot (c # cs)) = last (splitDot cs)"
        using False by (cases "splitDot cs") auto
      moreover have "last (splitDot cs) \<noteq> cs"
        using Cons.IH True by auto
      ultimately show ?thesis
        using Cons.IH by (auto simp: suffix_ConsI)
    next
      case noDot: False
      then show ?thesis
        using False by (simp add: splitDot_no_dot)
    qed
  qed
qed

text \<open>
  C8, at a failing input. The monitor's type is supported and its target is the non-empty
  string \<^verbatim>\<open>exa mple\<close>, in which no host name and no public suffix is recognised, and which
  is no IP literal. Reading the length of the suffix on line 161 throws a \<^verbatim>\<open>TypeError\<close>:
  the failure is not the typed one for a short suffix.
\<close>

theorem checkSupport_no_suffix_type_error:
  "checkSupport exampleEnv (exampleMonitor ''exa mple'') = Inl TypeError
   \<and> supportViaField exampleEnv (type (exampleMonitor ''exa mple'')) = Some ''url''
   \<and> field (exampleMonitor ''exa mple'') ''url'' = Some ''exa mple''
   \<and> tld_isIp (parseTld exampleEnv ''exa mple'') = Some False
   \<and> tld_publicSuffix (parseTld exampleEnv ''exa mple'') = None"
  by (simp add: checkSupport_def exampleEnv_def exampleMonitor_def exampleParseTld_def
      noTld_def)

text \<open>
  Where a public suffix is recognised, the failures are typed and the result has the shape
  the specification gives: a target that is an IP literal fails as an IP address; a suffix of
  fewer than 2 characters fails as too short; otherwise the result is the registrable domain
  that was parsed and the root label, the last part of the public suffix between dots.
\<close>

lemma checkSupport_recognised_suffix:
  assumes "supportViaField e (type m) = Some targetField"
    and "field m targetField = Some target"
    and "target \<noteq> []"
  shows
    "(tld_isIp (parseTld e target) = Some True \<longrightarrow>
        checkSupport e m =
          Inl (TranslatableError ''domain_expiry_unsupported_is_ip''
                 [(''hostname'', tld_hostname (parseTld e target))]))
     \<and> (\<forall>ps. tld_isIp (parseTld e target) \<noteq> Some True
              \<and> tld_publicSuffix (parseTld e target) = Some ps \<longrightarrow>
           (if length ps < 2
            then checkSupport e m =
                   Inl (TranslatableError ''domain_expiry_public_suffix_too_short''
                          [(''publicSuffix'', Some ps)])
            else (\<exists>root. checkSupport e m =
                           Inr \<lparr>si_domain = tld_domain (parseTld e target), si_tld = root\<rparr>
                         \<and> CHR ''.'' \<notin> set root
                         \<and> (root = ps \<or> suffix (CHR ''.'' # root) ps))))"
  using assms last_splitDot
  by (auto simp: checkSupport_def Let_def)

lemma checkSupport_example:
  "checkSupport exampleEnv (exampleMonitor ''https://www.example.co.uk/path'')
     = Inr \<lparr>si_domain = Some ''example.co.uk'', si_tld = ''uk''\<rparr>
   \<and> checkSupport exampleEnv (exampleMonitor ''192.168.0.1'')
     = Inl (TranslatableError ''domain_expiry_unsupported_is_ip''
              [(''hostname'', Some ''192.168.0.1'')])"
  by (simp add: checkSupport_def exampleEnv_def exampleMonitor_def exampleParseTld_def
      noTld_def)

section \<open>The monitor type: outcomes of a check\<close>

lemma find_names_domain:
  assumes "findByDomainNameOrCreate tbl domainName = Some b"
    and "\<forall>n b'. domainName = Some n \<and> tbl n = Some b' \<longrightarrow> domain b' = n"
  shows "domainName = Some (domain b)"
proof (cases domainName)
  case None
  then show ?thesis
    using assms(1) by (simp add: findByDomainNameOrCreate_def findByName_def)
next
  case (Some n)
  show ?thesis
  proof (cases "tbl n")
    case None
    then show ?thesis
      using assms(1) Some
      by (auto simp: findByDomainNameOrCreate_def findByName_def createByName_def
          split: if_splits)
  next
    case (Some b')
    then show ?thesis
      using assms \<open>domainName = Some n\<close>
      by (auto simp: findByDomainNameOrCreate_def findByName_def)
  qed
qed

lemma find_after_store:
  "findByDomainNameOrCreate (store tbl b) (Some (domain b)) = Some b"
  by (simp add: findByDomainNameOrCreate_def findByName_def store_def)

text \<open>
  After a call of \<^verbatim>\<open>checkExpiry\<close> that returns a valid \<^verbatim>\<open>Date\<close>, the record read again
  has a number of days remaining.
\<close>

lemma checkExpiry_date_reread:
  assumes run: "checkExpiry e tbl domainName = Inr (JDate (Valid t), tbl', queried)"
    and names: "\<forall>n b. domainName = Some n \<and> tbl n = Some b \<longrightarrow> domain b = n"
  shows "\<exists>d days. findByDomainNameOrCreate tbl' domainName = Some d
                 \<and> daysRemaining e d = Some days"
proof (cases "findByDomainNameOrCreate tbl domainName")
  case None
  then show ?thesis
    using run by (simp add: checkExpiry_def)
next
  case (Some b)
  show ?thesis
  proof (cases "checkedRecently e b")
    case True
    then have "expiry b = JDate (Valid t)" "tbl' = tbl"
      using run Some by (simp_all add: checkExpiry_cached)
    then show ?thesis
      using Some by (simp add: daysRemaining_def)
  next
    case False
    then obtain result qs where query: "getWhoisDomainExpiryDate e (domain b) = Inr (result, qs)"
      using run Some by (cases "getWhoisDomainExpiryDate e (domain b)") (auto simp: checkExpiry_def)
    let ?b2 = "(if isAfter (dayjs_utc e (expiryDate result)) (dayjs_utc e (expiry b))
                then b\<lparr>lastExpiryNotificationSent := None\<rparr> else b)
                 \<lparr>expiry := isoDateTimeMillis e (expiryDate result),
                  lastCheck := isoDateTimeMillisNow e,
                  whois_info := whoisInfo result\<rparr>"
    have res: "expiryDate result = JDate (Valid t)" "tbl' = store tbl ?b2"
      using run checkExpiry_fresh [OF Some False query]
      by (auto split: if_splits)
    have dom: "domain ?b2 = domain b"
      by simp
    have "domainName = Some (domain ?b2)"
      using find_names_domain [OF Some names] dom by simp
    then have "findByDomainNameOrCreate tbl' domainName = Some ?b2"
      using find_after_store [of tbl ?b2] res(2) by simp
    moreover have "daysRemaining e ?b2 =
        Some (absFloorDiv (t + localOffset e t - now e) MILLISECONDS_A_DAY)"
      by (simp add: daysRemaining_def res(1))
    ultimately show ?thesis
      by blast
  qed
qed

lemma message_parts:
  "sublist (showString d) (noExpiryMessage d)"
  "sublist (showString d) (expiredMessage d days)"
  "sublist (showInt \<bar>days\<bar>) (expiredMessage d days)"
  "sublist (showNumber n) (upMessage e d n t)"
proof -
  show "sublist (showString d) (noExpiryMessage d)"
    unfolding noExpiryMessage_def by (rule sublist_append_leftI)
  show "sublist (showString d) (expiredMessage d days)"
    unfolding expiredMessage_def by (rule sublist_appendI)
  have "sublist (showInt \<bar>days\<bar>)
      ((''Domain '' @ showString d @ '' expired '') @ showInt \<bar>days\<bar> @
        ('' day'' @ (if \<bar>days\<bar> = 1 then [] else ''s'') @ '' ago''))"
    by (rule sublist_appendI)
  then show "sublist (showInt \<bar>days\<bar>) (expiredMessage d days)"
    by (simp add: expiredMessage_def)
  have "sublist (showNumber n)
      ((showString d @ '' expires in '') @ showNumber n @ ('' days ('' @ toISOString e t @ '')''))"
    by (rule sublist_appendI)
  then show "sublist (showNumber n) (upMessage e d n t)"
    by (simp add: upMessage_def)
qed

lemma example_support:
  "checkSupport exampleEnv (exampleMonitor ''https://example.com'')
     = Inr \<lparr>si_domain = Some ''example.com'', si_tld = ''com''\<rparr>"
  by (simp add: checkSupport_def exampleEnv_def exampleMonitor_def exampleParseTld_def)

lemma april_support: "checkSupport aprilEnv m = checkSupport exampleEnv m"
proof -
  have same: "parseTld aprilEnv = parseTld exampleEnv"
    "supportViaField aprilEnv = supportViaField exampleEnv"
    by (simp_all add: aprilEnv_def)
  show ?thesis
    unfolding checkSupport_def same by (rule refl)
qed

lemma april_facts:
  "getWhoisDomainExpiryDate aprilEnv ''example.com'' =
     Inr (\<lparr>expiryDate = JDate (Valid 1903824000000),
           whoisInfo = Some [(''Registry Expiry Date'', ''2030-05-01T00:00:00Z'')]\<rparr>,
          [''example.com''])"
  "now aprilEnv = 1902873600000"
  "localOffset aprilEnv t = 0"
  "toISOString aprilEnv 1903824000000 = ''2030-05-01T00:00:00.000Z''"
  by (simp_all add: aprilEnv_def exampleEnv_def getWhoisDomainExpiryDate_def
      normalizeDomain_def exampleUrlHost_def whoisCallback_def exampleNewDate_def
      WHOIS_EXPIRY_KEYS_def exampleTrim_def asciiWhiteSpace_def setProperty_def)

lemma expired_support: "checkSupport expiredEnv m = checkSupport exampleEnv m"
proof -
  have same: "parseTld expiredEnv = parseTld exampleEnv"
    "supportViaField expiredEnv = supportViaField exampleEnv"
    by (simp_all add: expiredEnv_def)
  show ?thesis
    unfolding checkSupport_def same by (rule refl)
qed

lemma expired_facts:
  "getWhoisDomainExpiryDate expiredEnv ''example.com'' =
     Inr (\<lparr>expiryDate = JDate (Valid 1577836800000),
           whoisInfo = Some [(''Registry Expiry Date'', ''2020-01-01'')]\<rparr>,
          [''example.com''])"
  "now expiredEnv = 1793664000000"
  "localOffset expiredEnv t = 0"
  by (simp_all add: expiredEnv_def exampleEnv_def getWhoisDomainExpiryDate_def
      normalizeDomain_def exampleUrlHost_def whoisCallback_def exampleNewDate_def
      WHOIS_EXPIRY_KEYS_def exampleTrim_def asciiWhiteSpace_def setProperty_def)

lemma new_record:
  "findByDomainNameOrCreate Map.empty (Some ''example.com'') = Some (createByName ''example.com'')"
  "\<not> checkedRecently e (createByName ''example.com'')"
  "domain (createByName ''example.com'') = ''example.com''"
  by (simp_all add: findByDomainNameOrCreate_def findByName_def checkedRecently_def
      createByName_def)

lemma april_run:
  "checkExpiry aprilEnv Map.empty (Some ''example.com'') =
     Inr (JDate (Valid 1903824000000),
          [''example.com'' \<mapsto>
             \<lparr>domain = ''example.com'', expiry = JText (Valid 1903824000000),
              lastCheck = JText (Valid 1902873600000), lastExpiryNotificationSent = None,
              whois_info = Some [(''Registry Expiry Date'', ''2030-05-01T00:00:00Z'')]\<rparr>],
          [''example.com''])"
proof -
  have query: "getWhoisDomainExpiryDate aprilEnv (domain (createByName ''example.com'')) =
      Inr (\<lparr>expiryDate = JDate (Valid 1903824000000),
            whoisInfo = Some [(''Registry Expiry Date'', ''2030-05-01T00:00:00Z'')]\<rparr>,
           [''example.com''])"
    by (simp add: new_record april_facts)
  show ?thesis
    by (simp add: checkExpiry_fresh [OF new_record(1) new_record(2) query] april_facts
        isoDateTimeMillisNow_def store_def createByName_def)
qed

lemma expired_run:
  "checkExpiry expiredEnv Map.empty (Some ''example.com'') =
     Inr (JDate (Valid 1577836800000),
          [''example.com'' \<mapsto>
             \<lparr>domain = ''example.com'', expiry = JText (Valid 1577836800000),
              lastCheck = JText (Valid 1793664000000), lastExpiryNotificationSent = None,
              whois_info = Some [(''Registry Expiry Date'', ''2020-01-01'')]\<rparr>],
          [''example.com''])"
proof -
  have query: "getWhoisDomainExpiryDate expiredEnv (domain (createByName ''example.com'')) =
      Inr (\<lparr>expiryDate = JDate (Valid 1577836800000),
            whoisInfo = Some [(''Registry Expiry Date'', ''2020-01-01'')]\<rparr>,
           [''example.com''])"
    by (simp add: new_record expired_facts)
  show ?thesis
    by (simp add: checkExpiry_fresh [OF new_record(1) new_record(2) query] expired_facts
        isoDateTimeMillisNow_def store_def createByName_def)
qed

lemma show_examples:
  "showInt 11 = ''11''" "showInt 2498 = ''2498''"
  by code_simp+

text \<open>
  The outcomes of a check in which \<^verbatim>\<open>checkExpiry\<close> returns no text. When it resolves no
  expiry date (its value is falsy or an invalid \<^verbatim>\<open>Date\<close>), the check throws an error whose
  message names the domain; when it resolves a valid \<^verbatim>\<open>Date\<close>, the record read again has a
  number of days remaining, and the check throws an error whose message states the number
  of days since the expiry when that number is negative, and otherwise sets the heartbeat
  to UP with a message that contains the days remaining.
\<close>

lemma check_outcomes:
  assumes sup: "checkSupport e m = Inr si"
    and run: "checkExpiry e tbl (si_domain si) = Inr (r, tbl', queried)"
    and names: "\<forall>n b. si_domain si = Some n \<and> tbl n = Some b \<longrightarrow> domain b = n"
  shows
    "(\<not> truthy r \<or> r = JDate Invalid \<longrightarrow>
        check e tbl m hb = (Inl (Error (noExpiryMessage (si_domain si))), tbl', queried)
        \<and> sublist (showString (si_domain si)) (noExpiryMessage (si_domain si)))
     \<and> (\<forall>t. r = JDate (Valid t) \<longrightarrow>
          (\<exists>d days.
             findByDomainNameOrCreate tbl' (si_domain si) = Some d
             \<and> daysRemaining e d = Some days
             \<and> (days < 0 \<longrightarrow>
                  check e tbl m hb =
                    (Inl (Error (expiredMessage (si_domain si) days)), tbl', queried)
                  \<and> sublist (showString (si_domain si)) (expiredMessage (si_domain si) days)
                  \<and> sublist (showInt \<bar>days\<bar>) (expiredMessage (si_domain si) days))
             \<and> (0 \<le> days \<longrightarrow>
                  check e tbl m hb =
                    (Inr (hb\<lparr>status := UP,
                             msg := upMessage e (si_domain si) (Some days) t\<rparr>), tbl', queried)
                  \<and> sublist (showInt days) (upMessage e (si_domain si) (Some days) t))))"
proof (intro conjI allI impI)
  assume none: "\<not> truthy r \<or> r = JDate Invalid"
  then show "check e tbl m hb = (Inl (Error (noExpiryMessage (si_domain si))), tbl', queried)"
    using sup run by (cases r) (auto simp: check_def)
  show "sublist (showString (si_domain si)) (noExpiryMessage (si_domain si))"
    by (rule message_parts)
next
  fix t
  assume r: "r = JDate (Valid t)"
  obtain d days where again: "findByDomainNameOrCreate tbl' (si_domain si) = Some d"
    and left: "daysRemaining e d = Some days"
    using checkExpiry_date_reread [OF run [unfolded r] names] by blast
  have expired: "check e tbl m hb =
      (Inl (Error (expiredMessage (si_domain si) days)), tbl', queried)" if "days < 0"
    using sup run r again left that by (simp add: check_def)
  have up: "check e tbl m hb =
      (Inr (hb\<lparr>status := UP, msg := upMessage e (si_domain si) (Some days) t\<rparr>), tbl', queried)"
    if "0 \<le> days"
    using sup run r again left that by (simp add: check_def)
  have shown: "sublist (showInt days) (upMessage e (si_domain si) (Some days) t)"
    using message_parts(4) [of "Some days"] by simp
  show "\<exists>d days.
      findByDomainNameOrCreate tbl' (si_domain si) = Some d
      \<and> daysRemaining e d = Some days
      \<and> (days < 0 \<longrightarrow>
           check e tbl m hb = (Inl (Error (expiredMessage (si_domain si) days)), tbl', queried)
           \<and> sublist (showString (si_domain si)) (expiredMessage (si_domain si) days)
           \<and> sublist (showInt \<bar>days\<bar>) (expiredMessage (si_domain si) days))
      \<and> (0 \<le> days \<longrightarrow>
           check e tbl m hb =
             (Inr (hb\<lparr>status := UP, msg := upMessage e (si_domain si) (Some days) t\<rparr>),
              tbl', queried)
           \<and> sublist (showInt days) (upMessage e (si_domain si) (Some days) t))"
    using again left expired up shown message_parts(2,3) by blast
qed

lemma check_outcomes_examples:
  "checkSupport aprilEnv (exampleMonitor ''https://example.com'')
     = Inr \<lparr>si_domain = Some ''example.com'', si_tld = ''com''\<rparr>
   \<and> checkExpiry aprilEnv Map.empty (Some ''example.com'')
     = Inr (JDate (Valid 1903824000000),
            [''example.com'' \<mapsto>
               \<lparr>domain = ''example.com'', expiry = JText (Valid 1903824000000),
                lastCheck = JText (Valid 1902873600000), lastExpiryNotificationSent = None,
                whois_info = Some [(''Registry Expiry Date'', ''2030-05-01T00:00:00Z'')]\<rparr>],
            [''example.com''])
   \<and> check aprilEnv Map.empty (exampleMonitor ''https://example.com'') exampleHeartbeat
     = (Inr \<lparr>status = UP,
             msg = ''example.com expires in 11 days (2030-05-01T00:00:00.000Z)''\<rparr>,
        [''example.com'' \<mapsto>
           \<lparr>domain = ''example.com'', expiry = JText (Valid 1903824000000),
            lastCheck = JText (Valid 1902873600000), lastExpiryNotificationSent = None,
            whois_info = Some [(''Registry Expiry Date'', ''2030-05-01T00:00:00Z'')]\<rparr>],
        [''example.com''])
   \<and> check expiredEnv Map.empty (exampleMonitor ''https://example.com'') exampleHeartbeat
     = (Inl (Error ''Domain example.com expired 2498 days ago''),
        [''example.com'' \<mapsto>
           \<lparr>domain = ''example.com'', expiry = JText (Valid 1577836800000),
            lastCheck = JText (Valid 1793664000000), lastExpiryNotificationSent = None,
            whois_info = Some [(''Registry Expiry Date'', ''2020-01-01'')]\<rparr>],
        [''example.com''])"
proof -
  let ?m = "exampleMonitor ''https://example.com''"
  let ?si = "\<lparr>si_domain = Some ''example.com'', si_tld = ''com''\<rparr>"
  let ?stored = "\<lparr>domain = ''example.com'', expiry = JText (Valid 1903824000000),
      lastCheck = JText (Valid 1902873600000), lastExpiryNotificationSent = None,
      whois_info = Some [(''Registry Expiry Date'', ''2030-05-01T00:00:00Z'')]\<rparr>"
  let ?old = "\<lparr>domain = ''example.com'', expiry = JText (Valid 1577836800000),
      lastCheck = JText (Valid 1793664000000), lastExpiryNotificationSent = None,
      whois_info = Some [(''Registry Expiry Date'', ''2020-01-01'')]\<rparr>"
  have names: "\<forall>n b. si_domain ?si = Some n \<and> Map.empty n = Some b \<longrightarrow> domain b = n"
    by simp
  have sup: "checkSupport aprilEnv ?m = Inr ?si"
    by (simp add: april_support example_support)
  have run: "checkExpiry aprilEnv Map.empty (si_domain ?si) =
      Inr (JDate (Valid 1903824000000), [''example.com'' \<mapsto> ?stored], [''example.com''])"
    by (simp add: april_run)
  obtain d days where
    again: "findByDomainNameOrCreate [''example.com'' \<mapsto> ?stored] (si_domain ?si) = Some d"
    and left: "daysRemaining aprilEnv d = Some days"
    and up: "0 \<le> days \<longrightarrow>
      check aprilEnv Map.empty ?m exampleHeartbeat =
        (Inr (exampleHeartbeat\<lparr>status := UP,
                msg := upMessage aprilEnv (si_domain ?si) (Some days) 1903824000000\<rparr>),
         [''example.com'' \<mapsto> ?stored], [''example.com''])"
    using check_outcomes [OF sup run names, of exampleHeartbeat] by blast
  have "d = ?stored"
    using again by (simp add: example_find)
  then have "days = 11"
    using left
    by (simp add: daysRemaining_def april_facts absFloorDiv_def MILLISECONDS_A_DAY_def)
  then have first: "check aprilEnv Map.empty ?m exampleHeartbeat =
      (Inr \<lparr>status = UP, msg = ''example.com expires in 11 days (2030-05-01T00:00:00.000Z)''\<rparr>,
       [''example.com'' \<mapsto> ?stored], [''example.com''])"
    using up by (simp add: upMessage_def show_examples april_facts exampleHeartbeat_def)
  have sup': "checkSupport expiredEnv ?m = Inr ?si"
    by (simp add: expired_support example_support)
  have run': "checkExpiry expiredEnv Map.empty (si_domain ?si) =
      Inr (JDate (Valid 1577836800000), [''example.com'' \<mapsto> ?old], [''example.com''])"
    by (simp add: expired_run)
  obtain d' days' where
    again': "findByDomainNameOrCreate [''example.com'' \<mapsto> ?old] (si_domain ?si) = Some d'"
    and left': "daysRemaining expiredEnv d' = Some days'"
    and gone: "days' < 0 \<longrightarrow>
      check expiredEnv Map.empty ?m exampleHeartbeat =
        (Inl (Error (expiredMessage (si_domain ?si) days')),
         [''example.com'' \<mapsto> ?old], [''example.com''])"
    using check_outcomes [OF sup' run' names, of exampleHeartbeat] by blast
  have "d' = ?old"
    using again' by (simp add: example_find)
  then have "days' = - 2498"
    using left'
    by (simp add: daysRemaining_def expired_facts absFloorDiv_def MILLISECONDS_A_DAY_def)
  then have second: "check expiredEnv Map.empty ?m exampleHeartbeat =
      (Inl (Error ''Domain example.com expired 2498 days ago''),
       [''example.com'' \<mapsto> ?old], [''example.com''])"
    using gone by (simp add: expiredMessage_def show_examples)
  show ?thesis
    using sup run first second by simp
qed

text \<open>
  C9, at a failing input. The clock stands at 2030-04-20T00:00:00Z; the record of
  \<^verbatim>\<open>example.com\<close> holds the expiry 2030-05-01T00:00:00Z, so that 11 days remain, and was
  checked twelve hours before. \<^verbatim>\<open>checkExpiry\<close> returns the stored text without a query, and
  the call of \<^verbatim>\<open>getTime\<close> on it throws a \<^verbatim>\<open>TypeError\<close>: the heartbeat is not set to UP.
\<close>

theorem check_recent_record_type_error:
  "check aprilEnv
     [''example.com'' \<mapsto>
        exampleBean (JText (Valid 1903824000000)) (JText (Valid 1902830400000)) None]
     (exampleMonitor ''https://example.com'') exampleHeartbeat
     = (Inl TypeError,
        [''example.com'' \<mapsto>
           exampleBean (JText (Valid 1903824000000)) (JText (Valid 1902830400000)) None],
        [])
   \<and> daysRemaining aprilEnv
       (exampleBean (JText (Valid 1903824000000)) (JText (Valid 1902830400000)) None)
     = Some 11"
proof -
  let ?b = "exampleBean (JText (Valid 1903824000000)) (JText (Valid 1902830400000)) None"
  have recent: "checkedRecently aprilEnv ?b"
    by (simp add: checkedRecently_def exampleBean_def april_facts absFloorDiv_def
        MILLISECONDS_A_DAY_def)
  have ret: "checkExpiry aprilEnv [''example.com'' \<mapsto> ?b] (Some ''example.com'')
      = Inr (expiry ?b, [''example.com'' \<mapsto> ?b], [])"
    by (rule checkExpiry_cached [OF example_find recent])
  have stored: "expiry ?b = JText (Valid 1903824000000)"
    by (simp add: exampleBean_def)
  have "check aprilEnv [''example.com'' \<mapsto> ?b] (exampleMonitor ''https://example.com'')
      exampleHeartbeat = (Inl TypeError, [''example.com'' \<mapsto> ?b], [])"
    by (simp add: check_def april_support example_support ret stored)
  moreover have "daysRemaining aprilEnv ?b = Some 11"
    by (simp add: daysRemaining_def exampleBean_def april_facts absFloorDiv_def
        MILLISECONDS_A_DAY_def)
  ultimately show ?thesis
    by simp
qed

text \<open>
  C10. When \<^verbatim>\<open>checkExpiry\<close> takes the branch of a recent check, it returns the expiry field
  of the record as it is stored (a date-time text, or \<^verbatim>\<open>null\<close> when there is none), leaves
  the table as it is and sends no query; and whenever the stored expiry is a text, the
  monitor type's call of \<^verbatim>\<open>getTime\<close> on it throws a \<^verbatim>\<open>TypeError\<close>: the check ends with
  that exception and no heartbeat.
\<close>

theorem cache_hit_returns_stored_value:
  assumes "findByDomainNameOrCreate tbl domainName = Some b"
    and "checkedRecently e b"
  shows
    "checkExpiry e tbl domainName = Inr (expiry b, tbl, [])
     \<and> (\<forall>m si hb d. checkSupport e m = Inr si \<and> si_domain si = domainName
                      \<and> expiry b = JText d \<longrightarrow>
           check e tbl m hb = (Inl TypeError, tbl, []))"
  using assms by (auto simp: checkExpiry_cached check_def)

theorem cache_hit_returns_stored_value_witness:
  "findByDomainNameOrCreate
     [''example.com'' \<mapsto>
        exampleBean (JText (Valid 1903824000000)) (JText (Valid 1793660400000)) None]
     (Some ''example.com'')
     = Some (exampleBean (JText (Valid 1903824000000)) (JText (Valid 1793660400000)) None)
   \<and> checkedRecently exampleEnv
       (exampleBean (JText (Valid 1903824000000)) (JText (Valid 1793660400000)) None)
   \<and> checkExpiry exampleEnv
       [''example.com'' \<mapsto>
          exampleBean (JText (Valid 1903824000000)) (JText (Valid 1793660400000)) None]
       (Some ''example.com'')
     = Inr (JText (Valid 1903824000000),
            [''example.com'' \<mapsto>
               exampleBean (JText (Valid 1903824000000)) (JText (Valid 1793660400000)) None],
            [])
   \<and> check exampleEnv
       [''example.com'' \<mapsto>
          exampleBean (JText (Valid 1903824000000)) (JText (Valid 1793660400000)) None]
       (exampleMonitor ''https://example.com'') exampleHeartbeat
     = (Inl TypeError,
        [''example.com'' \<mapsto>
           exampleBean (JText (Valid 1903824000000)) (JText (Valid 1793660400000)) None],
        [])"
proof -
  let ?b = "exampleBean (JText (Valid 1903824000000)) (JText (Valid 1793660400000)) None"
  have recent: "checkedRecently exampleEnv ?b"
    by (simp add: checkedRecently_def exampleBean_def now_example absFloorDiv_def
        MILLISECONDS_A_DAY_def)
  have stored: "expiry ?b = JText (Valid 1903824000000)"
    by (simp add: exampleBean_def)
  note inst = cache_hit_returns_stored_value [OF example_find recent]
  have ret: "checkExpiry exampleEnv [''example.com'' \<mapsto> ?b] (Some ''example.com'')
      = Inr (JText (Valid 1903824000000), [''example.com'' \<mapsto> ?b], [])"
    using inst [THEN conjunct1] stored by simp
  have prem: "checkSupport exampleEnv (exampleMonitor ''https://example.com'')
        = Inr \<lparr>si_domain = Some ''example.com'', si_tld = ''com''\<rparr>
      \<and> si_domain \<lparr>si_domain = Some ''example.com'', si_tld = ''com''\<rparr> = Some ''example.com''
      \<and> expiry ?b = JText (Valid 1903824000000)"
    by (simp add: example_support stored)
  have "check exampleEnv [''example.com'' \<mapsto> ?b] (exampleMonitor ''https://example.com'')
      exampleHeartbeat = (Inl TypeError, [''example.com'' \<mapsto> ?b], [])"
    by (rule inst [THEN conjunct2, rule_format, OF prem])
  with recent ret show ?thesis
    by (simp add: example_find)
qed

end
